theory Spec2Isabelle
  imports Complex_Main
begin

section \<open>JavaScript numbers\<close>

text \<open>
  A JavaScript number is an IEEE 754 binary64 value. \<open>Finite sg m e\<close> is the finite
  double with sign bit \<open>sg\<close> (\<open>True\<close> is negative), integer significand \<open>m < 2^53\<close>
  and exponent \<open>e\<close>, denoting \<open>m * 2^e\<close>; the representation is the canonical one
  (\<open>- 1074 \<le> e \<le> 971\<close>, and \<open>2^52 \<le> m\<close> unless \<open>e = - 1074\<close>), so that two doubles are
  equal as terms exactly when they are the same bit pattern. Both zeros exist:
  \<open>Finite False 0 (- 1074)\<close> and \<open>Finite True 0 (- 1074)\<close>.
\<close>

datatype jsnum = NaN | Infinity bool | Finite bool nat int

definition pos_zero :: jsnum where
  "pos_zero = Finite False 0 (- 1074)"

text \<open>The rational number a finite double denotes (0 for the values that denote none).\<close>

fun num_value :: "jsnum \<Rightarrow> rat" where
  "num_value (Finite sg m e) =
     (if sg then - 1 else 1) * of_nat m *
     (if 0 \<le> e then 2 ^ nat e else 1 / 2 ^ nat (- e))"
| "num_value _ = 0"

text \<open>The sign bit; \<open>NaN\<close> is reported as unsigned.\<close>

fun sign_bit :: "jsnum \<Rightarrow> bool" where
  "sign_bit (Finite sg _ _) = sg"
| "sign_bit (Infinity sg) = sg"
| "sign_bit NaN = False"

text \<open>\<open>approx x q eps\<close>: \<open>x\<close> is a finite double within \<open>eps\<close> of the rational \<open>q\<close>.\<close>

definition approx :: "jsnum \<Rightarrow> rat \<Rightarrow> rat \<Rightarrow> bool" where
  "approx x q eps =
     (case x of Finite sg m e \<Rightarrow> \<bar>num_value x - q\<bar> \<le> eps | _ \<Rightarrow> False)"

text \<open>Number of binary digits of a natural number.\<close>

fun bit_length :: "nat \<Rightarrow> nat" where
  "bit_length n = (if n = 0 then 0 else 1 + bit_length (n div 2))"

declare bit_length.simps [simp del]

text \<open>
  Rounding a positive rational \<open>a / b\<close> (with \<open>0 < b\<close>) to the nearest double: round to
  nearest, ties to even, gradual underflow, overflow to infinity. With \<open>d\<close> the
  difference of the bit lengths, \<open>a / b\<close> lies strictly between \<open>2^(d-1)\<close> and
  \<open>2^(d+1)\<close>, which gives the binary exponent; the unit in the last place is \<open>2^q\<close>
  with \<open>q\<close> the exponent less 52, and at least \<open>- 1074\<close>.
\<close>

definition exponent_adjust :: "nat \<Rightarrow> nat \<Rightarrow> int \<Rightarrow> int" where
  "exponent_adjust a b d = (if b * 2 ^ nat d \<le> a * 2 ^ nat (- d) then d else d - 1)"

definition binary_exponent :: "nat \<Rightarrow> nat \<Rightarrow> int" where
  "binary_exponent a b = exponent_adjust a b (int (bit_length a) - int (bit_length b))"

text \<open>Quotient \<open>m0\<close> and remainder \<open>r\<close> of a division by \<open>den\<close>, rounded half to even.\<close>

definition tie_to_even :: "nat \<Rightarrow> nat \<Rightarrow> nat \<Rightarrow> nat" where
  "tie_to_even m0 r den =
     (if 2 * r < den then m0
      else if den < 2 * r then m0 + 1
      else if even m0 then m0 else m0 + 1)"

definition round_div :: "nat \<Rightarrow> nat \<Rightarrow> nat" where
  "round_div num den = tie_to_even (num div den) (num mod den) den"

text \<open>The significand \<open>2^53\<close> is renormalised; an exponent above 971 overflows.\<close>

definition pack :: "bool \<Rightarrow> nat \<Rightarrow> int \<Rightarrow> jsnum" where
  "pack sg m q =
     (if m = 2 ^ 53 then (if 971 < q + 1 then Infinity sg else Finite sg (2 ^ 52) (q + 1))
      else if 971 < q then Infinity sg else Finite sg m q)"

definition round_at :: "bool \<Rightarrow> nat \<Rightarrow> nat \<Rightarrow> int \<Rightarrow> jsnum" where
  "round_at sg a b q = pack sg (round_div (a * 2 ^ nat (- q)) (b * 2 ^ nat q)) q"

definition round_ratio :: "bool \<Rightarrow> nat \<Rightarrow> nat \<Rightarrow> jsnum" where
  "round_ratio sg a b =
     (if a = 0 then Finite sg 0 (- 1074)
      else round_at sg a b (max (binary_exponent a b - 52) (- 1074)))"

text \<open>Unary minus, which is also what \<^verbatim>\<open>dec *= -1\<close> computes: the sign bit flips.\<close>

fun js_neg :: "jsnum \<Rightarrow> jsnum" where
  "js_neg NaN = NaN"
| "js_neg (Infinity sg) = Infinity (\<not> sg)"
| "js_neg (Finite sg m e) = Finite (\<not> sg) m e"

text \<open>\<^verbatim>\<open>Math.abs\<close>: the sign bit is cleared.\<close>

fun js_abs :: "jsnum \<Rightarrow> jsnum" where
  "js_abs NaN = NaN"
| "js_abs (Infinity sg) = Infinity False"
| "js_abs (Finite sg m e) = Finite False m e"

text \<open>
  Addition. Adding a zero to a number that is not zero gives that number. Otherwise the
  exact sum of two finite doubles is an integer multiple of \<open>2^k\<close> for the smaller
  exponent \<open>k\<close>; it is rounded once. An exact zero sum is \<open>+0\<close> unless both operands
  are negative.
\<close>

definition signed :: "bool \<Rightarrow> nat \<Rightarrow> int" where
  "signed sg m = (if sg then - int m else int m)"

definition sum_to_double :: "bool \<Rightarrow> bool \<Rightarrow> int \<Rightarrow> int \<Rightarrow> jsnum" where
  "sum_to_double s t k z =
     (if z = 0 then Finite (s \<and> t) 0 (- 1074)
      else round_ratio (z < 0) (nat \<bar>z\<bar> * 2 ^ nat k) (2 ^ nat (- k)))"

fun js_add :: "jsnum \<Rightarrow> jsnum \<Rightarrow> jsnum" where
  "js_add NaN y = NaN"
| "js_add (Infinity s) NaN = NaN"
| "js_add (Finite s m e) NaN = NaN"
| "js_add (Infinity s) (Infinity t) = (if s = t then Infinity s else NaN)"
| "js_add (Infinity s) (Finite t n f) = Infinity s"
| "js_add (Finite s m e) (Infinity t) = Infinity t"
| "js_add (Finite s m e) (Finite t n f) =
     (if m = 0 \<and> n = 0 then Finite (s \<and> t) 0 (- 1074)
      else if n = 0 then Finite s m e
      else if m = 0 then Finite t n f
      else sum_to_double s t (min e f)
             (signed s (m * 2 ^ nat (e - min e f)) + signed t (n * 2 ^ nat (f - min e f))))"

text \<open>Division, with the IEEE special cases.\<close>

fun js_div :: "jsnum \<Rightarrow> jsnum \<Rightarrow> jsnum" where
  "js_div NaN y = NaN"
| "js_div (Infinity s) NaN = NaN"
| "js_div (Finite s m e) NaN = NaN"
| "js_div (Infinity s) (Infinity t) = NaN"
| "js_div (Infinity s) (Finite t n f) = Infinity (s \<noteq> t)"
| "js_div (Finite s m e) (Infinity t) = Finite (s \<noteq> t) 0 (- 1074)"
| "js_div (Finite s m e) (Finite t n f) =
     (if n = 0 then (if m = 0 then NaN else Infinity (s \<noteq> t))
      else if m = 0 then Finite (s \<noteq> t) 0 (- 1074)
      else round_ratio (s \<noteq> t) (m * 2 ^ nat (e - f)) (n * 2 ^ nat (f - e)))"

text \<open>The comparison \<^verbatim>\<open>x < 0\<close>: false for \<open>NaN\<close> and for both zeros.\<close>

fun js_lt_zero :: "jsnum \<Rightarrow> bool" where
  "js_lt_zero NaN = False"
| "js_lt_zero (Infinity sg) = sg"
| "js_lt_zero (Finite sg m e) = (sg \<and> m \<noteq> 0)"

text \<open>The double of a natural number literal such as \<^verbatim>\<open>60\<close>.\<close>

definition js_nat :: "nat \<Rightarrow> jsnum" where
  "js_nat n = round_ratio False n 1"


section \<open>JavaScript strings\<close>

text \<open>
  A JavaScript string is a sequence of UTF-16 code units, here natural numbers below
  \<open>2^16\<close>. The source file spells its degree character as the code unit U+C9F8
  (bytes EC A7 B8 in UTF-8), which is not the degree sign U+00B0.
\<close>

type_synonym jsstring = "nat list"

definition ascii :: "string \<Rightarrow> jsstring" where
  "ascii s = map of_char s"

definition degree_sign :: nat where
  "degree_sign = 176"

definition source_degree_char :: nat where
  "source_degree_char = 51704"

text \<open>
  White space as \<^verbatim>\<open>trim\<close>, \<^verbatim>\<open>\s\<close>, \<^verbatim>\<open>Number\<close> and \<^verbatim>\<open>parseFloat\<close> understand it:
  the WhiteSpace and LineTerminator code points of ECMAScript.
\<close>

definition is_space :: "nat \<Rightarrow> bool" where
  "is_space c =
     (c = 9 \<or> c = 10 \<or> c = 11 \<or> c = 12 \<or> c = 13 \<or> c = 32 \<or> c = 160 \<or> c = 5760 \<or>
      (8192 \<le> c \<and> c \<le> 8202) \<or> c = 8232 \<or> c = 8233 \<or> c = 8239 \<or> c = 8287 \<or>
      c = 12288 \<or> c = 65279)"

definition trim :: "jsstring \<Rightarrow> jsstring" where
  "trim s = rev (dropWhile is_space (rev (dropWhile is_space s)))"

text \<open>\<^verbatim>\<open>s.replace(a, b)\<close> with one-character strings: the first occurrence only.\<close>

fun replace_first :: "nat \<Rightarrow> nat \<Rightarrow> jsstring \<Rightarrow> jsstring" where
  "replace_first a b [] = []"
| "replace_first a b (c # cs) = (if c = a then b # cs else c # replace_first a b cs)"

text \<open>\<^verbatim>\<open>s.replace(/[...]/g, r)\<close> with a one-character replacement: every occurrence.\<close>

definition replace_all :: "(nat \<Rightarrow> bool) \<Rightarrow> nat \<Rightarrow> jsstring \<Rightarrow> jsstring" where
  "replace_all P r s = map (\<lambda>c. if P c then r else c) s"

text \<open>\<^verbatim>\<open>s.replace(/\s+/g, ' ')\<close>: every maximal run of white space becomes one space.\<close>

function collapse_spaces :: "jsstring \<Rightarrow> jsstring" where
  "collapse_spaces [] = []"
| "collapse_spaces (c # cs) =
     (if is_space c then 32 # collapse_spaces (dropWhile is_space cs)
      else c # collapse_spaces cs)"
  by pat_completeness auto
termination
  by (relation "measure length") (auto simp: length_dropWhile_le less_Suc_eq_le)

text \<open>\<^verbatim>\<open>s.split(sep)\<close> for a one-character separator; the empty string gives one empty part.\<close>

fun split_on :: "nat \<Rightarrow> jsstring \<Rightarrow> jsstring list" where
  "split_on sep [] = [ [] ]"
| "split_on sep (c # cs) =
     (if c = sep then [] # split_on sep cs
      else (case split_on sep cs of [] \<Rightarrow> [ [c] ] | p # ps \<Rightarrow> (c # p) # ps))"

text \<open>
  \<^verbatim>\<open>toLowerCase\<close>. The table is exact on every code unit whose image contains an ASCII
  code unit: the letters A to Z, U+0130 (to i followed by U+0307) and U+212A (to k). The
  rest of the Unicode table is not reproduced; since none of its images contains an
  ASCII code unit, comparisons with an ASCII string are not affected.
\<close>

definition lower_unit :: "nat \<Rightarrow> jsstring" where
  "lower_unit c =
     (if 65 \<le> c \<and> c \<le> 90 then [c + 32]
      else if c = 304 then [105, 775]
      else if c = 8490 then [107]
      else [c])"

definition toLowerCase :: "jsstring \<Rightarrow> jsstring" where
  "toLowerCase s = concat (map lower_unit s)"

text \<open>\<^verbatim>\<open>toUpperCase\<close> of a one-letter ASCII string, as applied to the matched hemisphere letter.\<close>

definition upper_letter :: "nat \<Rightarrow> nat" where
  "upper_letter c = (if 97 \<le> c \<and> c \<le> 122 then c - 32 else c)"

section \<open>Strings to numbers\<close>

definition is_digit :: "nat \<Rightarrow> bool" where
  "is_digit c = (48 \<le> c \<and> c \<le> 57)"

definition digits_value :: "jsstring \<Rightarrow> nat" where
  "digits_value ds = foldl (\<lambda>acc c. acc * 10 + (c - 48)) 0 ds"

text \<open>
  An unsigned \<^verbatim>\<open>StrDecimalLiteral\<close>: \<^verbatim>\<open>Infinity\<close>, or the decimal \<open>n * 10^k\<close>.
\<close>

datatype literal = LitInfinity | LitDecimal nat int

text \<open>
  The exponent part: \<^verbatim>\<open>e\<close> or \<^verbatim>\<open>E\<close>, an optional sign and at least one digit; when it
  is not there the exponent is 0 and nothing is consumed.
\<close>

definition exponent_digits :: "bool \<Rightarrow> jsstring \<Rightarrow> jsstring \<Rightarrow> int \<times> jsstring" where
  "exponent_digits neg rest r =
     (if takeWhile is_digit r = [] then (0, rest)
      else (if neg then - int (digits_value (takeWhile is_digit r))
            else int (digits_value (takeWhile is_digit r)),
            dropWhile is_digit r))"

fun scan_exponent :: "jsstring \<Rightarrow> int \<times> jsstring" where
  "scan_exponent [] = (0, [])"
| "scan_exponent [c] = (0, [c])"
| "scan_exponent (c # x # r) =
     (if c = 101 \<or> c = 69 then
        (if x = 43 then exponent_digits False (c # x # r) r
         else if x = 45 then exponent_digits True (c # x # r) r
         else exponent_digits False (c # x # r) (x # r))
      else (0, c # x # r))"

definition with_exponent :: "nat \<Rightarrow> int \<Rightarrow> int \<times> jsstring \<Rightarrow> (literal \<times> jsstring) option" where
  "with_exponent n k xr = Some (LitDecimal n (fst xr + k), snd xr)"

definition scan_integer :: "jsstring \<Rightarrow> jsstring \<Rightarrow> (literal \<times> jsstring) option" where
  "scan_integer ip r =
     (if ip = [] then None else with_exponent (digits_value ip) 0 (scan_exponent r))"

definition scan_fraction ::
  "jsstring \<Rightarrow> jsstring \<Rightarrow> jsstring \<Rightarrow> (literal \<times> jsstring) option" where
  "scan_fraction ip fp r =
     (if ip = [] \<and> fp = [] then None
      else with_exponent (digits_value (ip @ fp)) (- int (length fp)) (scan_exponent r))"

fun scan_decimal :: "jsstring \<Rightarrow> jsstring \<Rightarrow> (literal \<times> jsstring) option" where
  "scan_decimal ip [] = scan_integer ip []"
| "scan_decimal ip (c # r) =
     (if c = 46 then scan_fraction ip (takeWhile is_digit r) (dropWhile is_digit r)
      else scan_integer ip (c # r))"

text \<open>The longest prefix that is an unsigned literal, with what follows it.\<close>

definition scan_unsigned :: "jsstring \<Rightarrow> (literal \<times> jsstring) option" where
  "scan_unsigned s =
     (if take 8 s = ascii ''Infinity'' then Some (LitInfinity, drop 8 s)
      else scan_decimal (takeWhile is_digit s) (dropWhile is_digit s))"

definition add_sign ::
  "bool \<Rightarrow> (literal \<times> jsstring) option \<Rightarrow> (bool \<times> literal \<times> jsstring) option" where
  "add_sign neg r = map_option (\<lambda>lr. (neg, fst lr, snd lr)) r"

fun scan_signed :: "jsstring \<Rightarrow> (bool \<times> literal \<times> jsstring) option" where
  "scan_signed [] = None"
| "scan_signed (c # r) =
     (if c = 43 then add_sign False (scan_unsigned r)
      else if c = 45 then add_sign True (scan_unsigned r)
      else add_sign False (scan_unsigned (c # r)))"

text \<open>
  The double of a literal: its exact decimal value, rounded once, as the engines do.
  (ECMAScript lets an implementation drop digits after the twentieth significant one;
  that latitude is not modelled.)
\<close>

fun literal_number :: "bool \<Rightarrow> literal \<Rightarrow> jsnum" where
  "literal_number neg LitInfinity = Infinity neg"
| "literal_number neg (LitDecimal n k) = round_ratio neg (n * 10 ^ nat k) (10 ^ nat (- k))"

text \<open>
  \<^verbatim>\<open>parseFloat\<close>: leading white space is skipped, the longest prefix that is a decimal
  literal is converted and the rest of the string is ignored; no such prefix gives
  \<open>NaN\<close>.
\<close>

fun prefix_number :: "(bool \<times> literal \<times> jsstring) option \<Rightarrow> jsnum" where
  "prefix_number None = NaN"
| "prefix_number (Some (neg, l, rest)) = literal_number neg l"

definition parseFloat :: "jsstring \<Rightarrow> jsnum" where
  "parseFloat s = prefix_number (scan_signed (dropWhile is_space s))"

text \<open>
  \<^verbatim>\<open>Number(s)\<close> for a string: white space is trimmed at both ends, the empty string is
  \<open>+0\<close>, and the whole of what remains must be a decimal literal or an unsigned binary,
  octal or hexadecimal integer literal; anything else is \<open>NaN\<close>.
\<close>

fun whole_number :: "(bool \<times> literal \<times> jsstring) option \<Rightarrow> jsnum" where
  "whole_number None = NaN"
| "whole_number (Some (neg, l, rest)) = (if rest = [] then literal_number neg l else NaN)"

definition radix_digit :: "nat \<Rightarrow> nat option" where
  "radix_digit c =
     (if 48 \<le> c \<and> c \<le> 57 then Some (c - 48)
      else if 97 \<le> c \<and> c \<le> 102 then Some (c - 87)
      else if 65 \<le> c \<and> c \<le> 70 then Some (c - 55)
      else None)"

definition radix_valid :: "nat \<Rightarrow> nat \<Rightarrow> bool" where
  "radix_valid b c = (case radix_digit c of None \<Rightarrow> False | Some v \<Rightarrow> v < b)"

definition radix_value :: "nat \<Rightarrow> jsstring \<Rightarrow> nat" where
  "radix_value b ds = foldl (\<lambda>acc c. acc * b + (case radix_digit c of None \<Rightarrow> 0 | Some v \<Rightarrow> v)) 0 ds"

definition radix_number :: "nat \<Rightarrow> jsstring \<Rightarrow> jsnum" where
  "radix_number b ds =
     (if ds \<noteq> [] \<and> list_all (radix_valid b) ds then round_ratio False (radix_value b ds) 1
      else NaN)"

fun radix_of :: "jsstring \<Rightarrow> nat option" where
  "radix_of (z # x # ds) =
     (if z \<noteq> 48 then None
      else if x = 120 \<or> x = 88 then Some 16
      else if x = 111 \<or> x = 79 then Some 8
      else if x = 98 \<or> x = 66 then Some 2
      else None)"
| "radix_of _ = None"

definition number_of_trimmed :: "jsstring \<Rightarrow> jsnum" where
  "number_of_trimmed t =
     (if t = [] then pos_zero
      else (case radix_of t of
              Some b \<Rightarrow> radix_number b (drop 2 t)
            | None \<Rightarrow> whole_number (scan_signed t)))"

definition Number_of_string :: "jsstring \<Rightarrow> jsnum" where
  "Number_of_string s = number_of_trimmed (trim s)"


section \<open>Values and rows\<close>

text \<open>
  The values a cell of a row can hold: the primitive values of JavaScript. (Objects,
  whose conversion to a string runs arbitrary code, are left out.)
\<close>

datatype jsval = Null | Undefined | Bool bool | Num jsnum | Str jsstring

text \<open>
  \<^verbatim>\<open>String(v)\<close>. The decimal rendering of a number (\<^verbatim>\<open>Number.prototype.toString\<close>) is
  not part of the repository and is taken as the parameter \<open>num_text\<close>.
\<close>

fun String_of :: "(jsnum \<Rightarrow> jsstring) \<Rightarrow> jsval \<Rightarrow> jsstring" where
  "String_of num_text Null = ascii ''null''"
| "String_of num_text Undefined = ascii ''undefined''"
| "String_of num_text (Bool b) = (if b then ascii ''true'' else ascii ''false'')"
| "String_of num_text (Num x) = num_text x"
| "String_of num_text (Str s) = s"

text \<open>
  A row is an object: its own properties, in the order of \<^verbatim>\<open>Object.keys\<close>. Reading a
  property that is not there gives \<^verbatim>\<open>undefined\<close>.
\<close>

type_synonym RawRow = "(jsstring \<times> jsval) list"

definition get_prop :: "RawRow \<Rightarrow> jsstring \<Rightarrow> jsval" where
  "get_prop row k = (case map_of row k of None \<Rightarrow> Undefined | Some v \<Rightarrow> v)"

record NormalizedPoint =
  lat :: jsnum
  lon :: jsnum
  label :: jsstring

section \<open>parseCoord\<close>

definition is_dms_symbol :: "nat \<Rightarrow> bool" where
  "is_dms_symbol c = (c = source_degree_char \<or> c = 39 \<or> c = 34)"

definition is_hemisphere :: "nat \<Rightarrow> bool" where
  "is_hemisphere c = (c \<in> set (ascii ''NSEWnsew''))"

text \<open>The hemisphere letter: the first match of \<^verbatim>\<open>/([NSEW])/i\<close>, in upper case.\<close>

definition dms_hemi :: "jsstring \<Rightarrow> nat option" where
  "dms_hemi s = map_option upper_letter (find is_hemisphere s)"

text \<open>When there is a match, every hemisphere letter becomes a space.\<close>

definition strip_hemisphere :: "jsstring \<Rightarrow> jsstring" where
  "strip_hemisphere s =
     (if find is_hemisphere s \<noteq> None then replace_all is_hemisphere 32 s else s)"

text \<open>The three symbols become spaces, white space is collapsed, the ends are trimmed.\<close>

definition strip_symbols :: "jsstring \<Rightarrow> jsstring" where
  "strip_symbols s =
     trim (collapse_spaces
       (replace_all (\<lambda>c. c = 34) 32
         (replace_all (\<lambda>c. c = 39) 32
           (replace_all (\<lambda>c. c = source_degree_char) 32 s))))"

text \<open>\<^verbatim>\<open>s.split(' ').filter(Boolean)\<close>: the non-empty parts.\<close>

definition dms_parts :: "jsstring \<Rightarrow> jsstring list" where
  "dms_parts s = filter (\<lambda>p. p \<noteq> []) (split_on 32 (strip_symbols (strip_hemisphere s)))"

text \<open>\<^verbatim>\<open>parts[i] || '0'\<close>: a part that is missing (or empty) is read as \<^verbatim>\<open>'0'\<close>.\<close>

definition part_or_zero :: "jsstring list \<Rightarrow> nat \<Rightarrow> jsstring" where
  "part_or_zero parts i =
     (if i < length parts \<and> parts ! i \<noteq> [] then parts ! i else ascii ''0'')"

text \<open>\<^verbatim>\<open>Math.abs(deg) + (min / 60) + (sec / 3600)\<close>.\<close>

definition dms_magnitude :: "jsnum \<Rightarrow> jsnum \<Rightarrow> jsnum \<Rightarrow> jsnum" where
  "dms_magnitude deg mn sec =
     js_add (js_add (js_abs deg) (js_div mn (js_nat 60))) (js_div sec (js_nat 3600))"

text \<open>\<^verbatim>\<open>if (deg < 0) dec *= -1\<close>.\<close>

definition degree_sign_applied :: "jsnum \<Rightarrow> jsnum \<Rightarrow> jsnum" where
  "degree_sign_applied deg dec = (if js_lt_zero deg then js_neg dec else dec)"

text \<open>The hemisphere overrides the sign: 83 is S, 87 is W, 78 is N and 69 is E.\<close>

definition hemisphere_applied :: "nat option \<Rightarrow> jsnum \<Rightarrow> jsnum" where
  "hemisphere_applied hemi dec =
     (if hemi = Some 83 \<or> hemi = Some 87 then js_neg (js_abs dec)
      else if hemi = Some 78 \<or> hemi = Some 69 then js_abs dec
      else dec)"

definition dms_result :: "nat option \<Rightarrow> jsnum \<Rightarrow> jsnum \<Rightarrow> jsnum \<Rightarrow> jsnum" where
  "dms_result hemi deg mn sec =
     (if deg = NaN \<or> mn = NaN \<or> sec = NaN then NaN
      else hemisphere_applied hemi (degree_sign_applied deg (dms_magnitude deg mn sec)))"

definition dms_of_parts :: "nat option \<Rightarrow> jsstring list \<Rightarrow> jsnum" where
  "dms_of_parts hemi parts =
     (if length parts = 0 then NaN
      else dms_result hemi
             (parseFloat (parts ! 0))
             (parseFloat (part_or_zero parts 1))
             (parseFloat (part_or_zero parts 2)))"

definition parseCoord_dms :: "jsstring \<Rightarrow> jsnum" where
  "parseCoord_dms s = dms_of_parts (dms_hemi s) (dms_parts s)"

text \<open>The two tests on the string, after the first comma has become a point.\<close>

definition hasDmsSymbols :: "jsstring \<Rightarrow> bool" where
  "hasDmsSymbols s = list_ex is_dms_symbol s"

definition hasHemisphere :: "jsstring \<Rightarrow> bool" where
  "hasHemisphere s = list_ex is_hemisphere s"

definition parseCoord_decimal_or_dms :: "jsstring \<Rightarrow> jsnum" where
  "parseCoord_decimal_or_dms s =
     (if \<not> hasDmsSymbols s \<and> \<not> hasHemisphere s then Number_of_string s
      else parseCoord_dms s)"

text \<open>The trimmed string: empty is \<open>NaN\<close>; otherwise the first comma becomes a point.\<close>

definition parseCoord_trimmed :: "jsstring \<Rightarrow> jsnum" where
  "parseCoord_trimmed s =
     (if s = [] then NaN else parseCoord_decimal_or_dms (replace_first 44 46 s))"

definition parseCoord_string :: "jsstring \<Rightarrow> jsnum" where
  "parseCoord_string s = parseCoord_trimmed (trim s)"

text \<open>
  \<^verbatim>\<open>parseCoord(value)\<close>: \<^verbatim>\<open>null\<close> and \<^verbatim>\<open>undefined\<close> give \<open>NaN\<close>, a number is returned
  as it is, and anything else goes through \<^verbatim>\<open>String(value)\<close>.
\<close>

fun parseCoord :: "jsval \<Rightarrow> jsnum" where
  "parseCoord Null = NaN"
| "parseCoord Undefined = NaN"
| "parseCoord (Num x) = x"
| "parseCoord (Bool b) = parseCoord_string (if b then ascii ''true'' else ascii ''false'')"
| "parseCoord (Str s) = parseCoord_string s"

section \<open>findKey\<close>

text \<open>
  \<^verbatim>\<open>lower\<close> maps each key in lower case to the key; where two keys agree in lower
  case the later one wins (\<^verbatim>\<open>Object.fromEntries\<close>). The candidates are tried in
  order; a hit counts when it is truthy, that is, not the empty string. (The
  properties \<^verbatim>\<open>lower\<close> inherits from \<^verbatim>\<open>Object.prototype\<close> are not modelled: none of
  their names is a candidate used in this program.)
\<close>

definition lower_keys :: "RawRow \<Rightarrow> (jsstring \<times> jsstring) list" where
  "lower_keys row = rev (map (\<lambda>k. (toLowerCase k, k)) (map fst row))"

fun first_hit :: "(jsstring \<times> jsstring) list \<Rightarrow> jsstring list \<Rightarrow> jsstring option" where
  "first_hit lower [] = None"
| "first_hit lower (c # cs) =
     (case map_of lower (toLowerCase c) of
        None \<Rightarrow> first_hit lower cs
      | Some hit \<Rightarrow> if hit \<noteq> [] then Some hit else first_hit lower cs)"

definition findKey :: "RawRow \<Rightarrow> jsstring list \<Rightarrow> jsstring option" where
  "findKey obj candidates = first_hit (lower_keys obj) candidates"

section \<open>normalizeRows\<close>

definition lat_aliases :: "jsstring list" where
  "lat_aliases = [ascii ''lat'', ascii ''Latitude'', ascii ''y'']"

definition lon_aliases :: "jsstring list" where
  "lon_aliases = [ascii ''lon'', ascii ''lng'', ascii ''Longitude'', ascii ''x'']"

definition name_aliases :: "jsstring list" where
  "name_aliases =
     [ascii ''user'', ascii ''username'', ascii ''name'', ascii ''label'', ascii ''Analyst'']"

text \<open>
  One row with its three keys found: the point, or \<open>None\<close> when a coordinate is \<open>NaN\<close>
  or the label is empty.
\<close>

definition point_of_cells :: "jsnum \<Rightarrow> jsnum \<Rightarrow> jsstring \<Rightarrow> NormalizedPoint option" where
  "point_of_cells la lo lb =
     (if la = NaN \<or> lo = NaN \<or> lb = [] then None
      else Some \<lparr>lat = la, lon = lo, label = lb\<rparr>)"

fun point_of_keys ::
  "(jsnum \<Rightarrow> jsstring) \<Rightarrow> RawRow \<Rightarrow> jsstring option \<Rightarrow> jsstring option \<Rightarrow> jsstring option
     \<Rightarrow> NormalizedPoint option" where
  "point_of_keys num_text row (Some latKey) (Some lonKey) (Some nameKey) =
     point_of_cells (parseCoord (get_prop row latKey)) (parseCoord (get_prop row lonKey))
       (trim (String_of num_text (get_prop row nameKey)))"
| "point_of_keys num_text row _ _ _ = None"

definition point_of_row :: "(jsnum \<Rightarrow> jsstring) \<Rightarrow> RawRow \<Rightarrow> NormalizedPoint option" where
  "point_of_row num_text row =
     point_of_keys num_text row (findKey row lat_aliases) (findKey row lon_aliases)
       (findKey row name_aliases)"

text \<open>The loop, with its two variables \<^verbatim>\<open>out\<close> and \<^verbatim>\<open>dropped\<close> as the state.\<close>

fun normalizeRows_loop ::
  "(jsnum \<Rightarrow> jsstring) \<Rightarrow> RawRow list \<Rightarrow> NormalizedPoint list \<times> nat
     \<Rightarrow> NormalizedPoint list \<times> nat" where
  "normalizeRows_loop num_text [] st = st"
| "normalizeRows_loop num_text (row # rows) (out, dropped) =
     (case point_of_row num_text row of
        None \<Rightarrow> normalizeRows_loop num_text rows (out, dropped + 1)
      | Some p \<Rightarrow> normalizeRows_loop num_text rows (out @ [p], dropped))"

definition normalizeRows_state ::
  "(jsnum \<Rightarrow> jsstring) \<Rightarrow> RawRow list \<Rightarrow> NormalizedPoint list \<times> nat" where
  "normalizeRows_state num_text rows = normalizeRows_loop num_text rows ([], 0)"

text \<open>The value returned is \<^verbatim>\<open>out\<close>; \<^verbatim>\<open>dropped\<close> is reported by \<^verbatim>\<open>console.warn\<close> when it is not 0.\<close>

definition normalizeRows :: "(jsnum \<Rightarrow> jsstring) \<Rightarrow> RawRow list \<Rightarrow> NormalizedPoint list" where
  "normalizeRows num_text rows = fst (normalizeRows_state num_text rows)"

definition dropped_count :: "(jsnum \<Rightarrow> jsstring) \<Rightarrow> RawRow list \<Rightarrow> nat" where
  "dropped_count num_text rows = snd (normalizeRows_state num_text rows)"

definition normalizeRows_warning :: "(jsnum \<Rightarrow> jsstring) \<Rightarrow> RawRow list \<Rightarrow> nat option" where
  "normalizeRows_warning num_text rows =
     (if dropped_count num_text rows \<noteq> 0 then Some (dropped_count num_text rows) else None)"


section \<open>loadCsvCached\<close>

text \<open>
  The module variable \<^verbatim>\<open>cache\<close>: \<^verbatim>\<open>rows\<close> is \<^verbatim>\<open>null\<close> (\<open>None\<close>) or an array, and an array is
  truthy even when it is empty. A modification time is a finite number of milliseconds.
\<close>

record cache =
  rows :: "NormalizedPoint list option"
  mtimeMs :: rat

definition initial_cache :: cache where
  "initial_cache = \<lparr>rows = None, mtimeMs = 0\<rparr>"

text \<open>
  What the file system answers during one call: \<^verbatim>\<open>fs.promises.stat\<close> gives the
  modification time or fails, \<^verbatim>\<open>fs.promises.readFile\<close> gives the text or fails.
\<close>

datatype io_error = ENOENT | EACCES | EIO

record file_system =
  stat_result :: "io_error + rat"
  readFile_result :: "io_error + jsstring"

text \<open>The effects of a call, in the order in which they happen.\<close>

datatype io_event = StatCall | ReadFileCall | ParseCall | ConsoleError

text \<open>
  \<^verbatim>\<open>Papa.parse\<close> belongs to a library and is the parameter \<open>papa\<close>: from the text of the
  file to the \<^verbatim>\<open>data\<close> of the result when that is an array, \<open>None\<close> when it is not.
\<close>

definition data_rows :: "RawRow list option \<Rightarrow> RawRow list" where
  "data_rows d = (case d of None \<Rightarrow> [] | Some rs \<Rightarrow> rs)"

text \<open>\<^verbatim>\<open>!cache.rows || stat.mtimeMs > cache.mtimeMs\<close>.\<close>

definition needs_reload :: "cache \<Rightarrow> rat \<Rightarrow> bool" where
  "needs_reload c m = (rows c = None \<or> mtimeMs c < m)"

definition reloaded ::
  "(jsnum \<Rightarrow> jsstring) \<Rightarrow> (jsstring \<Rightarrow> RawRow list option) \<Rightarrow> rat \<Rightarrow> jsstring \<Rightarrow> cache" where
  "reloaded num_text papa m text =
     \<lparr>rows = Some (normalizeRows num_text (data_rows (papa text))), mtimeMs = m\<rparr>"

text \<open>
  The body of the \<^verbatim>\<open>try\<close> block: the events, and either the error thrown or the cache
  as the block leaves it.
\<close>

fun try_read ::
  "(jsnum \<Rightarrow> jsstring) \<Rightarrow> (jsstring \<Rightarrow> RawRow list option) \<Rightarrow> rat \<Rightarrow> io_error + jsstring
     \<Rightarrow> io_event list \<times> (io_error + cache)" where
  "try_read num_text papa m (Inl e) = ([StatCall, ReadFileCall], Inl e)"
| "try_read num_text papa m (Inr text) =
     ([StatCall, ReadFileCall, ParseCall], Inr (reloaded num_text papa m text))"

fun try_stat ::
  "(jsnum \<Rightarrow> jsstring) \<Rightarrow> (jsstring \<Rightarrow> RawRow list option) \<Rightarrow> file_system \<Rightarrow> cache
     \<Rightarrow> io_error + rat \<Rightarrow> io_event list \<times> (io_error + cache)" where
  "try_stat num_text papa fs c (Inl e) = ([StatCall], Inl e)"
| "try_stat num_text papa fs c (Inr m) =
     (if needs_reload c m then try_read num_text papa m (readFile_result fs)
      else ([StatCall], Inr c))"

definition loadCsvCached_try ::
  "(jsnum \<Rightarrow> jsstring) \<Rightarrow> (jsstring \<Rightarrow> RawRow list option) \<Rightarrow> file_system \<Rightarrow> cache
     \<Rightarrow> io_event list \<times> (io_error + cache)" where
  "loadCsvCached_try num_text papa fs c = try_stat num_text papa fs c (stat_result fs)"

text \<open>
  The call: the events, the cache afterwards and how the call completes. \<open>Inr v\<close> is
  the value returned, \<^verbatim>\<open>cache.rows\<close> from the \<^verbatim>\<open>try\<close> block or the empty array from the
  \<^verbatim>\<open>catch\<close> block, which leaves the cache as it was; \<open>Inl e\<close> would be an error that
  reaches the caller.
\<close>

fun catch_block ::
  "cache \<Rightarrow> io_event list \<times> (io_error + cache)
     \<Rightarrow> io_event list \<times> cache \<times> (io_error + NormalizedPoint list option)" where
  "catch_block c (ev, Inl e) = (ev @ [ConsoleError], c, Inr (Some []))"
| "catch_block c (ev, Inr c') = (ev, c', Inr (rows c'))"

definition loadCsvCached ::
  "(jsnum \<Rightarrow> jsstring) \<Rightarrow> (jsstring \<Rightarrow> RawRow list option) \<Rightarrow> file_system \<Rightarrow> cache
     \<Rightarrow> io_event list \<times> cache \<times> (io_error + NormalizedPoint list option)" where
  "loadCsvCached num_text papa fs c = catch_block c (loadCsvCached_try num_text papa fs c)"

definition events_of :: "io_event list \<times> cache \<times> (io_error + NormalizedPoint list option)
     \<Rightarrow> io_event list" where
  "events_of r = fst r"

definition cache_of :: "io_event list \<times> cache \<times> (io_error + NormalizedPoint list option)
     \<Rightarrow> cache" where
  "cache_of r = fst (snd r)"

definition returned_of :: "io_event list \<times> cache \<times> (io_error + NormalizedPoint list option)
     \<Rightarrow> io_error + NormalizedPoint list option" where
  "returned_of r = snd (snd r)"


section \<open>Properties stated about the program\<close>

text \<open>A number is finite when it is neither \<open>NaN\<close> nor an infinity.\<close>

fun is_finite :: "jsnum \<Rightarrow> bool" where
  "is_finite (Finite sg m e) = True"
| "is_finite _ = False"

text \<open>The invariant of a point as the data model words it.\<close>

definition point_invariant :: "NormalizedPoint \<Rightarrow> bool" where
  "point_invariant p = (trim (label p) \<noteq> [] \<and> is_finite (lat p) \<and> is_finite (lon p))"

text \<open>What the checks of \<^verbatim>\<open>normalizeRows\<close> establish.\<close>

definition point_checked :: "NormalizedPoint \<Rightarrow> bool" where
  "point_checked p =
     (label p \<noteq> [] \<and> trim (label p) = label p \<and> lat p \<noteq> NaN \<and> lon p \<noteq> NaN)"

text \<open>
  The string \<^verbatim>\<open>parseCoord\<close> works on after trimming and replacing the first comma,
  whether it takes the path after the plain decimal test, and the parts it then splits
  the string into.
\<close>

definition prepared :: "jsstring \<Rightarrow> jsstring" where
  "prepared s = replace_first 44 46 (trim s)"

definition takes_dms_path :: "jsstring \<Rightarrow> bool" where
  "takes_dms_path s =
     (trim s \<noteq> [] \<and> (hasDmsSymbols (prepared s) \<or> hasHemisphere (prepared s)))"

definition dms_tokens :: "jsstring \<Rightarrow> jsstring list" where
  "dms_tokens s = dms_parts (prepared s)"

text \<open>A row none of whose keys is, in lower case, one of the given names.\<close>

definition no_key_among :: "RawRow \<Rightarrow> jsstring list \<Rightarrow> bool" where
  "no_key_among row names = (\<forall>k \<in> set (map fst row). toLowerCase k \<notin> set names)"

section \<open>Evaluation\<close>

text \<open>The defining equations, collected for evaluating the program on concrete inputs.\<close>

lemmas num_eval = js_nat_def round_ratio_def round_at_def pack_def round_div_def
  tie_to_even_def binary_exponent_def exponent_adjust_def bit_length.simps signed_def
  sum_to_double_def

lemmas str_eval = ascii_def is_space_def trim_def replace_all_def lower_unit_def
  toLowerCase_def upper_letter_def is_digit_def digits_value_def exponent_digits_def
  with_exponent_def scan_integer_def scan_fraction_def scan_unsigned_def add_sign_def
  parseFloat_def radix_digit_def radix_valid_def radix_value_def radix_number_def
  number_of_trimmed_def Number_of_string_def pos_zero_def

lemmas coord_eval = is_dms_symbol_def is_hemisphere_def dms_hemi_def strip_hemisphere_def
  strip_symbols_def dms_parts_def part_or_zero_def dms_magnitude_def
  degree_sign_applied_def hemisphere_applied_def dms_result_def dms_of_parts_def
  parseCoord_dms_def hasDmsSymbols_def hasHemisphere_def parseCoord_decimal_or_dms_def
  parseCoord_trimmed_def parseCoord_string_def source_degree_char_def degree_sign_def

lemmas rows_eval = get_prop_def lower_keys_def findKey_def lat_aliases_def
  lon_aliases_def name_aliases_def point_of_cells_def point_of_row_def
  normalizeRows_state_def normalizeRows_def dropped_count_def data_rows_def

section \<open>Checks of the number model\<close>

text \<open>
  Known doubles: 0.1 is \<open>7205759403792794 * 2^-56\<close>; \<open>2^53 + 1\<close> lies half way between
  two doubles and goes to the even one, \<open>2^53\<close>; \<^verbatim>\<open>parseFloat\<close> stops at the first
  character that cannot continue a literal, \<^verbatim>\<open>Number\<close> does not.
\<close>

lemma Number_one_tenth: "Number_of_string (ascii ''0.1'') = Finite False 7205759403792794 (- 56)"
  by (simp add: str_eval num_eval)

lemma Number_tie_to_even:
  "Number_of_string (ascii ''9007199254740993'') = Finite False 4503599627370496 1"
  by (simp add: str_eval num_eval)

lemma Number_hexadecimal: "Number_of_string (ascii ''0x1F'') = js_nat 31"
  by (simp add: str_eval num_eval)

lemma parseFloat_prefix:
  "parseFloat (ascii ''12.5px'') = Finite False 7036874417766400 (- 49)"
  "Number_of_string (ascii ''12.5px'') = NaN"
  "parseFloat (ascii ''.'') = NaN"
  "parseFloat (ascii ''-.5'') = Finite True 4503599627370496 (- 53)"
  by (simp_all add: str_eval num_eval)

lemma num_value_examples:
  "num_value (Finite False 7036874417766400 (- 49)) = 25 / 2"
  "num_value (Finite True 4503599627370496 (- 53)) = - 1 / 2"
  "num_value (Finite False 4503599627370496 1) = 2 ^ 53"
  by simp_all

section \<open>The cache\<close>

lemma loadCsvCached_stat_failed:
  "stat_result fs = Inl e \<Longrightarrow>
   loadCsvCached nt papa fs c = ([StatCall, ConsoleError], c, Inr (Some []))"
  by (simp add: loadCsvCached_def loadCsvCached_try_def)

lemma loadCsvCached_read_failed:
  "stat_result fs = Inr m \<Longrightarrow> needs_reload c m \<Longrightarrow> readFile_result fs = Inl e \<Longrightarrow>
   loadCsvCached nt papa fs c = ([StatCall, ReadFileCall, ConsoleError], c, Inr (Some []))"
  by (simp add: loadCsvCached_def loadCsvCached_try_def)

lemma loadCsvCached_reload:
  "stat_result fs = Inr m \<Longrightarrow> needs_reload c m \<Longrightarrow> readFile_result fs = Inr t \<Longrightarrow>
   loadCsvCached nt papa fs c =
     ([StatCall, ReadFileCall, ParseCall], reloaded nt papa m t,
      Inr (Some (normalizeRows nt (data_rows (papa t)))))"
  by (simp add: loadCsvCached_def loadCsvCached_try_def reloaded_def)

lemma loadCsvCached_fresh:
  "stat_result fs = Inr m \<Longrightarrow> \<not> needs_reload c m \<Longrightarrow>
   loadCsvCached nt papa fs c = ([StatCall], c, Inr (rows c))"
  by (simp add: loadCsvCached_def loadCsvCached_try_def)

lemma reloaded_fresh: "\<not> needs_reload (reloaded nt papa m t) m"
  by (simp add: needs_reload_def reloaded_def)

lemma reloaded_fields:
  "rows (reloaded nt papa m t) = Some (normalizeRows nt (data_rows (papa t)))"
  "mtimeMs (reloaded nt papa m t) = m"
  by (simp_all add: reloaded_def)

text \<open>The four ways a call can go.\<close>

lemma loadCsvCached_cases:
  obtains (stat_failed) e where "stat_result fs = Inl e"
  | (read_failed) m e where
      "stat_result fs = Inr m" "needs_reload c m" "readFile_result fs = Inl e"
  | (reload) m t where
      "stat_result fs = Inr m" "needs_reload c m" "readFile_result fs = Inr t"
  | (fresh) m where "stat_result fs = Inr m" "\<not> needs_reload c m"
proof (cases "stat_result fs")
  case (Inl e)
  then show ?thesis by (rule stat_failed)
next
  case (Inr m)
  show ?thesis
  proof (cases "needs_reload c m")
    case True
    then show ?thesis
      using Inr read_failed reload by (cases "readFile_result fs") blast+
  next
    case False
    then show ?thesis using Inr by (rule fresh[rotated])
  qed
qed

text \<open>Two calls with the file system unchanged between them, and a call after them.\<close>

lemma loadCsvCached_twice:
  assumes r1: "r1 = loadCsvCached nt papa fs c0"
    and r2: "r2 = loadCsvCached nt papa fs (cache_of r1)"
  shows "count_list (events_of r1 @ events_of r2) ParseCall \<le> 1
    \<and> (isl (readFile_result fs) \<or> count_list (events_of r1 @ events_of r2) ReadFileCall \<le> 1)
    \<and> returned_of r2 = returned_of r1
    \<and> cache_of r2 = cache_of r1
    \<and> (ParseCall \<in> set (events_of r1) \<longrightarrow> stat_result fs = Inr (mtimeMs (cache_of r1)))
    \<and> (stat_result fs = Inr m \<and> readFile_result fs = Inr t \<and> mtimeMs c0 \<le> m
        \<longrightarrow> mtimeMs (cache_of r1) = m \<and> rows (cache_of r1) \<noteq> None)
    \<and> (stat_result fs' = Inr m' \<and> mtimeMs (cache_of r1) < m' \<and> readFile_result fs' = Inr t'
        \<longrightarrow> loadCsvCached nt papa fs' (cache_of r1) =
              ([StatCall, ReadFileCall, ParseCall], reloaded nt papa m' t',
               Inr (Some (normalizeRows nt (data_rows (papa t'))))))"
proof -
  have third: "stat_result fs' = Inr m' \<and> mtimeMs c < m' \<and> readFile_result fs' = Inr t'
        \<longrightarrow> loadCsvCached nt papa fs' c =
              ([StatCall, ReadFileCall, ParseCall], reloaded nt papa m' t',
               Inr (Some (normalizeRows nt (data_rows (papa t')))))" for c
    by (simp add: loadCsvCached_reload needs_reload_def)
  show ?thesis
  proof (rule loadCsvCached_cases [where fs = fs and c = c0])
    fix e assume a: "stat_result fs = Inl e"
    have "loadCsvCached nt papa fs c0 = ([StatCall, ConsoleError], c0, Inr (Some []))"
      using a by (rule loadCsvCached_stat_failed)
    then show ?thesis using a third
      by (simp add: r1 r2 events_of_def cache_of_def returned_of_def)
  next
    fix m0 e
    assume a: "stat_result fs = Inr m0" "needs_reload c0 m0" "readFile_result fs = Inl e"
    have "loadCsvCached nt papa fs c0 =
        ([StatCall, ReadFileCall, ConsoleError], c0, Inr (Some []))"
      using a by (rule loadCsvCached_read_failed)
    then show ?thesis using a third
      by (simp add: r1 r2 events_of_def cache_of_def returned_of_def)
  next
    fix m0 t0
    assume a: "stat_result fs = Inr m0" "needs_reload c0 m0" "readFile_result fs = Inr t0"
    have first: "loadCsvCached nt papa fs c0 =
        ([StatCall, ReadFileCall, ParseCall], reloaded nt papa m0 t0,
         Inr (Some (normalizeRows nt (data_rows (papa t0)))))"
      using a by (rule loadCsvCached_reload)
    have "loadCsvCached nt papa fs (reloaded nt papa m0 t0) =
        ([StatCall], reloaded nt papa m0 t0, Inr (rows (reloaded nt papa m0 t0)))"
      using a(1) reloaded_fresh by (rule loadCsvCached_fresh)
    with first show ?thesis using a third
      by (simp add: r1 r2 reloaded_fields events_of_def cache_of_def returned_of_def)
  next
    fix m0 assume a: "stat_result fs = Inr m0" "\<not> needs_reload c0 m0"
    have "loadCsvCached nt papa fs c0 = ([StatCall], c0, Inr (rows c0))"
      using a by (rule loadCsvCached_fresh)
    then show ?thesis using a third
      by (auto simp add: r1 r2 events_of_def cache_of_def returned_of_def needs_reload_def)
  qed
qed

text \<open>
  Claim C4, amended. Two calls with the file system unchanged between them: the file
  is parsed at most once over both calls, and read at most once unless the read itself
  fails (then nothing is parsed and the next call tries the read again); the second
  call returns what the first returned and leaves the cache as the first left it.
  When the file could be read at the first call and the time in the cache was not
  later than the file's modification time, and the modification time then strictly
  advances and the file can be read, the next call reads and parses the file,
  replaces the cache and returns the points normalized from the new text. In general
  it does so whenever the file's modification time is strictly later than the time
  the cache holds.
\<close>

theorem C4_cached_until_modified:
  assumes r1: "r1 = loadCsvCached nt papa fs c0"
    and r2: "r2 = loadCsvCached nt papa fs (cache_of r1)"
  shows "count_list (events_of r1 @ events_of r2) ParseCall \<le> 1
    \<and> (isl (readFile_result fs) \<or> count_list (events_of r1 @ events_of r2) ReadFileCall \<le> 1)
    \<and> returned_of r2 = returned_of r1
    \<and> cache_of r2 = cache_of r1
    \<and> (stat_result fs = Inr m \<and> readFile_result fs = Inr t \<and> mtimeMs c0 \<le> m
        \<and> stat_result fs' = Inr m' \<and> m < m' \<and> readFile_result fs' = Inr t'
        \<longrightarrow> loadCsvCached nt papa fs' (cache_of r1) =
              ([StatCall, ReadFileCall, ParseCall], reloaded nt papa m' t',
               Inr (Some (normalizeRows nt (data_rows (papa t'))))))
    \<and> (stat_result fs' = Inr m' \<and> mtimeMs (cache_of r1) < m' \<and> readFile_result fs' = Inr t'
        \<longrightarrow> loadCsvCached nt papa fs' (cache_of r1) =
              ([StatCall, ReadFileCall, ParseCall], reloaded nt papa m' t',
               Inr (Some (normalizeRows nt (data_rows (papa t'))))))"
proof -
  note two = loadCsvCached_twice [OF r1 r2, where m = m and t = t and fs' = fs' and m' = m'
      and t' = t']
  have "loadCsvCached nt papa fs' (cache_of r1) =
      ([StatCall, ReadFileCall, ParseCall], reloaded nt papa m' t',
       Inr (Some (normalizeRows nt (data_rows (papa t')))))"
    if a: "stat_result fs = Inr m" "readFile_result fs = Inr t" "mtimeMs c0 \<le> m"
      and b: "stat_result fs' = Inr m'" "m < m'" "readFile_result fs' = Inr t'"
  proof -
    from two a have "mtimeMs (cache_of r1) = m" by blast
    with b(2) have "mtimeMs (cache_of r1) < m'" by simp
    with two b(1,3) show ?thesis by blast
  qed
  with two show ?thesis by blast
qed

text \<open>
  Claim C4, refuted as stated. When \<^verbatim>\<open>stat\<close> succeeds and the read fails, two calls on
  the unchanged file read it twice. And when the cache was loaded from the file at time
  2 and the file is then replaced by one with the earlier time 1, a call returns the
  cached points; the file's time then advances from 1 to 3/2 with a new text, and the
  next call still returns the cached points, not those of the new text.
\<close>

theorem C4_read_twice_and_stale_counterexample:
  "count_list
     (events_of (loadCsvCached (\<lambda>x. [])
        (\<lambda>t. Some [ [(ascii ''lat'', Str t), (ascii ''lon'', Str t), (ascii ''name'', Str t)] ])
        \<lparr>stat_result = Inr 1, readFile_result = Inl EACCES\<rparr> initial_cache) @
      events_of (loadCsvCached (\<lambda>x. [])
        (\<lambda>t. Some [ [(ascii ''lat'', Str t), (ascii ''lon'', Str t), (ascii ''name'', Str t)] ])
        \<lparr>stat_result = Inr 1, readFile_result = Inl EACCES\<rparr>
        (cache_of (loadCsvCached (\<lambda>x. [])
          (\<lambda>t. Some [ [(ascii ''lat'', Str t), (ascii ''lon'', Str t), (ascii ''name'', Str t)] ])
          \<lparr>stat_result = Inr 1, readFile_result = Inl EACCES\<rparr> initial_cache))))
     ReadFileCall = 2
   \<and> cache_of (loadCsvCached (\<lambda>x. [])
        (\<lambda>t. Some [ [(ascii ''lat'', Str t), (ascii ''lon'', Str t), (ascii ''name'', Str t)] ])
        \<lparr>stat_result = Inr 2, readFile_result = Inr (ascii ''2'')\<rparr> initial_cache) =
      \<lparr>rows = Some [\<lparr>lat = js_nat 2, lon = js_nat 2, label = ascii ''2''\<rparr>], mtimeMs = 2\<rparr>
   \<and> loadCsvCached (\<lambda>x. [])
        (\<lambda>t. Some [ [(ascii ''lat'', Str t), (ascii ''lon'', Str t), (ascii ''name'', Str t)] ])
        \<lparr>stat_result = Inr 1, readFile_result = Inr (ascii ''1'')\<rparr>
        \<lparr>rows = Some [\<lparr>lat = js_nat 2, lon = js_nat 2, label = ascii ''2''\<rparr>], mtimeMs = 2\<rparr> =
      ([StatCall],
       \<lparr>rows = Some [\<lparr>lat = js_nat 2, lon = js_nat 2, label = ascii ''2''\<rparr>], mtimeMs = 2\<rparr>,
       Inr (Some [\<lparr>lat = js_nat 2, lon = js_nat 2, label = ascii ''2''\<rparr>]))
   \<and> (1 :: rat) < 3 / 2
   \<and> loadCsvCached (\<lambda>x. [])
        (\<lambda>t. Some [ [(ascii ''lat'', Str t), (ascii ''lon'', Str t), (ascii ''name'', Str t)] ])
        \<lparr>stat_result = Inr (3 / 2), readFile_result = Inr (ascii ''3'')\<rparr>
        \<lparr>rows = Some [\<lparr>lat = js_nat 2, lon = js_nat 2, label = ascii ''2''\<rparr>], mtimeMs = 2\<rparr> =
      ([StatCall],
       \<lparr>rows = Some [\<lparr>lat = js_nat 2, lon = js_nat 2, label = ascii ''2''\<rparr>], mtimeMs = 2\<rparr>,
       Inr (Some [\<lparr>lat = js_nat 2, lon = js_nat 2, label = ascii ''2''\<rparr>]))
   \<and> normalizeRows (\<lambda>x. [])
        (data_rows ((\<lambda>t. Some [ [(ascii ''lat'', Str t), (ascii ''lon'', Str t),
          (ascii ''name'', Str t)] ]) (ascii ''3''))) =
      [\<lparr>lat = js_nat 3, lon = js_nat 3, label = ascii ''3''\<rparr>]
   \<and> [\<lparr>lat = js_nat 2, lon = js_nat 2, label = ascii ''2''\<rparr>] \<noteq>
      [\<lparr>lat = js_nat 3, lon = js_nat 3, label = ascii ''3''\<rparr>]"
proof -
  let ?papa = "\<lambda>t. Some [ [(ascii ''lat'', Str t), (ascii ''lon'', Str t),
    (ascii ''name'', Str t)] ]"
  let ?c2 = "\<lparr>rows = Some [\<lparr>lat = js_nat 2, lon = js_nat 2, label = ascii ''2''\<rparr>],
    mtimeMs = 2\<rparr>"
  have failing: "loadCsvCached (\<lambda>x. []) ?papa
      \<lparr>stat_result = Inr 1, readFile_result = Inl EACCES\<rparr> initial_cache =
      ([StatCall, ReadFileCall, ConsoleError], initial_cache, Inr (Some []))"
    by (rule loadCsvCached_read_failed) (simp_all add: needs_reload_def initial_cache_def)
  have n2: "normalizeRows (\<lambda>x. [])
        [ [(ascii ''lat'', Str (ascii ''2'')), (ascii ''lon'', Str (ascii ''2'')),
          (ascii ''name'', Str (ascii ''2''))] ] =
        [\<lparr>lat = js_nat 2, lon = js_nat 2, label = ascii ''2''\<rparr>]"
    by (simp add: rows_eval coord_eval str_eval num_eval)
  have n3: "normalizeRows (\<lambda>x. [])
        [ [(ascii ''lat'', Str (ascii ''3'')), (ascii ''lon'', Str (ascii ''3'')),
          (ascii ''name'', Str (ascii ''3''))] ] =
        [\<lparr>lat = js_nat 3, lon = js_nat 3, label = ascii ''3''\<rparr>]"
    by (simp add: rows_eval coord_eval str_eval num_eval)
  have loaded: "loadCsvCached (\<lambda>x. []) ?papa
      \<lparr>stat_result = Inr 2, readFile_result = Inr (ascii ''2'')\<rparr> initial_cache =
      ([StatCall, ReadFileCall, ParseCall], ?c2,
       Inr (Some [\<lparr>lat = js_nat 2, lon = js_nat 2, label = ascii ''2''\<rparr>]))"
    using loadCsvCached_reload [of "\<lparr>stat_result = Inr 2, readFile_result = Inr (ascii ''2'')\<rparr>"
        2 initial_cache "ascii ''2''" "\<lambda>x. []" ?papa]
    by (simp add: needs_reload_def initial_cache_def reloaded_def data_rows_def n2)
  have older: "loadCsvCached (\<lambda>x. []) ?papa
      \<lparr>stat_result = Inr 1, readFile_result = Inr (ascii ''1'')\<rparr> ?c2 =
      ([StatCall], ?c2, Inr (rows ?c2))"
    by (rule loadCsvCached_fresh [where m = 1]) (simp_all add: needs_reload_def)
  have later: "loadCsvCached (\<lambda>x. []) ?papa
      \<lparr>stat_result = Inr (3 / 2), readFile_result = Inr (ascii ''3'')\<rparr> ?c2 =
      ([StatCall], ?c2, Inr (rows ?c2))"
    by (rule loadCsvCached_fresh [where m = "3 / 2"]) (simp_all add: needs_reload_def)
  have differ: "js_nat 2 \<noteq> js_nat 3"
    by (simp add: num_eval)
  show ?thesis
    using differ
    by (simp add: failing loaded older later n3 data_rows_def events_of_def cache_of_def)
qed

text \<open>
  Claim C5, refuted as stated. \<^verbatim>\<open>stat\<close> succeeds, the file cannot be read, and the
  cache is populated with the file's modification time: the call does not read the
  file and returns the cached point, not the empty array.
\<close>

theorem C5_unreadable_file_cached_rows_counterexample:
  "loadCsvCached (\<lambda>x. []) (\<lambda>t. None)
      \<lparr>stat_result = Inr 7, readFile_result = Inl EACCES\<rparr>
      \<lparr>rows = Some [\<lparr>lat = pos_zero, lon = pos_zero, label = ascii ''a''\<rparr>], mtimeMs = 7\<rparr> =
     ([StatCall],
      \<lparr>rows = Some [\<lparr>lat = pos_zero, lon = pos_zero, label = ascii ''a''\<rparr>], mtimeMs = 7\<rparr>,
      Inr (Some [\<lparr>lat = pos_zero, lon = pos_zero, label = ascii ''a''\<rparr>]))
   \<and> returned_of (loadCsvCached (\<lambda>x. []) (\<lambda>t. None)
      \<lparr>stat_result = Inr 7, readFile_result = Inl EACCES\<rparr>
      \<lparr>rows = Some [\<lparr>lat = pos_zero, lon = pos_zero, label = ascii ''a''\<rparr>], mtimeMs = 7\<rparr>)
     \<noteq> Inr (Some [])"
proof -
  have "loadCsvCached (\<lambda>x. []) (\<lambda>t. None)
      \<lparr>stat_result = Inr 7, readFile_result = Inl EACCES\<rparr>
      \<lparr>rows = Some [\<lparr>lat = pos_zero, lon = pos_zero, label = ascii ''a''\<rparr>], mtimeMs = 7\<rparr> =
     ([StatCall],
      \<lparr>rows = Some [\<lparr>lat = pos_zero, lon = pos_zero, label = ascii ''a''\<rparr>], mtimeMs = 7\<rparr>,
      Inr (rows \<lparr>rows = Some [\<lparr>lat = pos_zero, lon = pos_zero, label = ascii ''a''\<rparr>],
        mtimeMs = 7\<rparr>))"
    by (rule loadCsvCached_fresh [where m = 7]) (simp_all add: needs_reload_def)
  then show ?thesis
    by (simp add: returned_of_def)
qed

text \<open>
  Claim C5, amended. When \<^verbatim>\<open>stat\<close> fails, or when the call has to reload (the cache is
  empty or the file's modification time is strictly later than the cached one) and the
  read fails, the call returns the empty array and leaves the cache as it was,
  whatever the cache holds. When \<^verbatim>\<open>stat\<close> succeeds and the call does not have to reload,
  the file is not read and the call returns the cached rows, whether the file could be
  read or not. Whatever the file system answers and whatever the cache holds, the call
  completes by returning an array: no error reaches the caller.
\<close>

theorem C5_inaccessible_file_gives_empty:
  "(stat_result fs = Inl e \<longrightarrow>
      loadCsvCached nt papa fs c = ([StatCall, ConsoleError], c, Inr (Some [])))
   \<and> (stat_result fs = Inr m \<and> needs_reload c m \<and> readFile_result fs = Inl e \<longrightarrow>
      loadCsvCached nt papa fs c = ([StatCall, ReadFileCall, ConsoleError], c, Inr (Some [])))
   \<and> (stat_result fs = Inr m \<and> \<not> needs_reload c m \<longrightarrow>
      loadCsvCached nt papa fs c = ([StatCall], c, Inr (rows c)))
   \<and> (\<exists>ps. returned_of (loadCsvCached nt papa fs c) = Inr (Some ps))"
proof -
  have "\<exists>ps. returned_of (loadCsvCached nt papa fs c) = Inr (Some ps)"
  proof (rule loadCsvCached_cases [where fs = fs and c = c])
    fix e assume "stat_result fs = Inl e"
    then show ?thesis by (simp add: loadCsvCached_stat_failed returned_of_def)
  next
    fix m e
    assume "stat_result fs = Inr m" "needs_reload c m" "readFile_result fs = Inl e"
    then show ?thesis by (simp add: loadCsvCached_read_failed returned_of_def)
  next
    fix m t
    assume "stat_result fs = Inr m" "needs_reload c m" "readFile_result fs = Inr t"
    then show ?thesis by (simp add: loadCsvCached_reload returned_of_def)
  next
    fix m assume "stat_result fs = Inr m" "\<not> needs_reload c m"
    then show ?thesis
      by (auto simp add: loadCsvCached_fresh returned_of_def needs_reload_def)
  qed
  then show ?thesis
    by (simp add: loadCsvCached_stat_failed loadCsvCached_read_failed loadCsvCached_fresh)
qed

text \<open>
  Claim C10. A load that succeeds and normalizes to no point at all still populates
  the cache, with the empty array and the file's modification time; the next call with
  the file unchanged only asks for the modification time, reads and parses nothing,
  and returns the empty array.
\<close>

theorem C10_empty_result_is_cached:
  assumes "stat_result fs = Inr m" and "needs_reload c m"
    and "readFile_result fs = Inr t"
    and "normalizeRows nt (data_rows (papa t)) = []"
  shows "loadCsvCached nt papa fs c =
           ([StatCall, ReadFileCall, ParseCall], \<lparr>rows = Some [], mtimeMs = m\<rparr>, Inr (Some []))
    \<and> loadCsvCached nt papa fs \<lparr>rows = Some [], mtimeMs = m\<rparr> =
           ([StatCall], \<lparr>rows = Some [], mtimeMs = m\<rparr>, Inr (Some []))"
proof -
  have "\<not> needs_reload \<lparr>rows = Some [], mtimeMs = m\<rparr> m"
    by (simp add: needs_reload_def)
  with assms show ?thesis
    by (simp add: loadCsvCached_reload loadCsvCached_fresh reloaded_def)
qed


section \<open>The cache on concrete file systems\<close>

theorem C4_cached_until_modified_witness:
  "count_list
     (events_of (loadCsvCached (\<lambda>x. [])
        (\<lambda>t. Some [ [(ascii ''lat'', Str t), (ascii ''lon'', Str t), (ascii ''name'', Str t)]])
        \<lparr>stat_result = Inr 1, readFile_result = Inr (ascii ''1'')\<rparr> initial_cache) @
      events_of (loadCsvCached (\<lambda>x. [])
        (\<lambda>t. Some [ [(ascii ''lat'', Str t), (ascii ''lon'', Str t), (ascii ''name'', Str t)]])
        \<lparr>stat_result = Inr 1, readFile_result = Inr (ascii ''1'')\<rparr>
        \<lparr>rows = Some [\<lparr>lat = js_nat 1, lon = js_nat 1, label = ascii ''1''\<rparr>], mtimeMs = 1\<rparr>))
     ParseCall \<le> 1
   \<and> cache_of (loadCsvCached (\<lambda>x. [])
        (\<lambda>t. Some [ [(ascii ''lat'', Str t), (ascii ''lon'', Str t), (ascii ''name'', Str t)]])
        \<lparr>stat_result = Inr 1, readFile_result = Inr (ascii ''1'')\<rparr> initial_cache) =
      \<lparr>rows = Some [\<lparr>lat = js_nat 1, lon = js_nat 1, label = ascii ''1''\<rparr>], mtimeMs = 1\<rparr>
   \<and> (1 :: rat) < 2
   \<and> loadCsvCached (\<lambda>x. [])
        (\<lambda>t. Some [ [(ascii ''lat'', Str t), (ascii ''lon'', Str t), (ascii ''name'', Str t)]])
        \<lparr>stat_result = Inr 2, readFile_result = Inr (ascii ''2'')\<rparr>
        \<lparr>rows = Some [\<lparr>lat = js_nat 1, lon = js_nat 1, label = ascii ''1''\<rparr>], mtimeMs = 1\<rparr> =
      ([StatCall, ReadFileCall, ParseCall],
       \<lparr>rows = Some [\<lparr>lat = js_nat 2, lon = js_nat 2, label = ascii ''2''\<rparr>], mtimeMs = 2\<rparr>,
       Inr (Some [\<lparr>lat = js_nat 2, lon = js_nat 2, label = ascii ''2''\<rparr>]))"
proof -
  have c1: "cache_of (loadCsvCached (\<lambda>x. [])
        (\<lambda>t. Some [ [(ascii ''lat'', Str t), (ascii ''lon'', Str t), (ascii ''name'', Str t)]])
        \<lparr>stat_result = Inr 1, readFile_result = Inr (ascii ''1'')\<rparr> initial_cache) =
      \<lparr>rows = Some [\<lparr>lat = js_nat 1, lon = js_nat 1, label = ascii ''1''\<rparr>], mtimeMs = 1\<rparr>"
    by (simp add: loadCsvCached_def loadCsvCached_try_def cache_of_def needs_reload_def
        initial_cache_def reloaded_def rows_eval coord_eval str_eval num_eval)
  have n2: "normalizeRows (\<lambda>x. [])
        [ [(ascii ''lat'', Str (ascii ''2'')), (ascii ''lon'', Str (ascii ''2'')),
          (ascii ''name'', Str (ascii ''2''))]] =
        [\<lparr>lat = js_nat 2, lon = js_nat 2, label = ascii ''2''\<rparr>]"
    by (simp add: rows_eval coord_eval str_eval num_eval)
  show ?thesis
    using C4_cached_until_modified [OF refl refl,
        where nt = "\<lambda>x. []"
          and papa = "\<lambda>t. Some [ [(ascii ''lat'', Str t), (ascii ''lon'', Str t),
            (ascii ''name'', Str t)]]"
          and fs = "\<lparr>stat_result = Inr 1, readFile_result = Inr (ascii ''1'')\<rparr>"
          and ?c0.0 = initial_cache and m = 1 and t = "ascii ''1''"
          and fs' = "\<lparr>stat_result = Inr 2, readFile_result = Inr (ascii ''2'')\<rparr>"
          and m' = 2 and t' = "ascii ''2''"]
    by (simp add: c1 n2 reloaded_def data_rows_def)
qed

theorem C5_inaccessible_file_gives_empty_witness:
  "loadCsvCached (\<lambda>x. []) (\<lambda>t. None)
      \<lparr>stat_result = Inl ENOENT, readFile_result = Inl ENOENT\<rparr>
      \<lparr>rows = Some [\<lparr>lat = pos_zero, lon = pos_zero, label = ascii ''a''\<rparr>], mtimeMs = 7\<rparr> =
     ([StatCall, ConsoleError],
      \<lparr>rows = Some [\<lparr>lat = pos_zero, lon = pos_zero, label = ascii ''a''\<rparr>], mtimeMs = 7\<rparr>,
      Inr (Some []))
   \<and> needs_reload
        \<lparr>rows = Some [\<lparr>lat = pos_zero, lon = pos_zero, label = ascii ''a''\<rparr>], mtimeMs = 7\<rparr> 9
   \<and> loadCsvCached (\<lambda>x. []) (\<lambda>t. None)
      \<lparr>stat_result = Inr 9, readFile_result = Inl EACCES\<rparr>
      \<lparr>rows = Some [\<lparr>lat = pos_zero, lon = pos_zero, label = ascii ''a''\<rparr>], mtimeMs = 7\<rparr> =
     ([StatCall, ReadFileCall, ConsoleError],
      \<lparr>rows = Some [\<lparr>lat = pos_zero, lon = pos_zero, label = ascii ''a''\<rparr>], mtimeMs = 7\<rparr>,
      Inr (Some []))
   \<and> \<not> needs_reload
        \<lparr>rows = Some [\<lparr>lat = pos_zero, lon = pos_zero, label = ascii ''a''\<rparr>], mtimeMs = 7\<rparr> 5
   \<and> loadCsvCached (\<lambda>x. []) (\<lambda>t. None)
      \<lparr>stat_result = Inr 5, readFile_result = Inr []\<rparr>
      \<lparr>rows = Some [\<lparr>lat = pos_zero, lon = pos_zero, label = ascii ''a''\<rparr>], mtimeMs = 7\<rparr> =
     ([StatCall],
      \<lparr>rows = Some [\<lparr>lat = pos_zero, lon = pos_zero, label = ascii ''a''\<rparr>], mtimeMs = 7\<rparr>,
      Inr (Some [\<lparr>lat = pos_zero, lon = pos_zero, label = ascii ''a''\<rparr>]))"
  using C5_inaccessible_file_gives_empty
      [of "\<lparr>stat_result = Inr 5, readFile_result = Inr []\<rparr>" EACCES "\<lambda>x. []"
          "\<lambda>t. None"
          "\<lparr>rows = Some [\<lparr>lat = pos_zero, lon = pos_zero, label = ascii ''a''\<rparr>], mtimeMs = 7\<rparr>"
          5]
    C5_inaccessible_file_gives_empty
      [of "\<lparr>stat_result = Inl ENOENT, readFile_result = Inl ENOENT\<rparr>" ENOENT "\<lambda>x. []"
          "\<lambda>t. None"
          "\<lparr>rows = Some [\<lparr>lat = pos_zero, lon = pos_zero, label = ascii ''a''\<rparr>], mtimeMs = 7\<rparr>"
          0]
    C5_inaccessible_file_gives_empty
      [of "\<lparr>stat_result = Inr 9, readFile_result = Inl EACCES\<rparr>" EACCES "\<lambda>x. []"
          "\<lambda>t. None"
          "\<lparr>rows = Some [\<lparr>lat = pos_zero, lon = pos_zero, label = ascii ''a''\<rparr>], mtimeMs = 7\<rparr>"
          9]
  by (simp add: needs_reload_def)

theorem C10_empty_result_is_cached_witness:
  "loadCsvCached (\<lambda>x. []) (\<lambda>t. Some [ [(ascii ''lat'', Str (ascii ''north''))]])
      \<lparr>stat_result = Inr 5, readFile_result = Inr (ascii ''lat'')\<rparr> initial_cache =
     ([StatCall, ReadFileCall, ParseCall], \<lparr>rows = Some [], mtimeMs = 5\<rparr>, Inr (Some []))
   \<and> loadCsvCached (\<lambda>x. []) (\<lambda>t. Some [ [(ascii ''lat'', Str (ascii ''north''))]])
      \<lparr>stat_result = Inr 5, readFile_result = Inr (ascii ''lat'')\<rparr>
      \<lparr>rows = Some [], mtimeMs = 5\<rparr> =
     ([StatCall], \<lparr>rows = Some [], mtimeMs = 5\<rparr>, Inr (Some []))"
  using C10_empty_result_is_cached
      [of "\<lparr>stat_result = Inr 5, readFile_result = Inr (ascii ''lat'')\<rparr>" 5 initial_cache
          "ascii ''lat''" "\<lambda>x. []" "\<lambda>t. Some [ [(ascii ''lat'', Str (ascii ''north''))]]"]
  by (simp add: needs_reload_def initial_cache_def rows_eval str_eval)


section \<open>normalizeRows\<close>

text \<open>The loop keeps the points of the rows that yield one, in order, and counts the others.\<close>

lemma normalizeRows_loop_eq:
  "normalizeRows_loop nt xs (out, d) =
     (out @ List.map_filter (point_of_row nt) xs,
      d + length (filter (\<lambda>r. point_of_row nt r = None) xs))"
  by (induction xs arbitrary: out d) (auto split: option.splits)

lemma normalizeRows_map_filter:
  "normalizeRows nt xs = List.map_filter (point_of_row nt) xs"
  by (simp add: normalizeRows_def normalizeRows_state_def normalizeRows_loop_eq)

lemma dropped_count_filter:
  "dropped_count nt xs = length (filter (\<lambda>r. point_of_row nt r = None) xs)"
  by (simp add: dropped_count_def normalizeRows_state_def normalizeRows_loop_eq)

lemma map_filter_append:
  "List.map_filter f (xs @ ys) = List.map_filter f xs @ List.map_filter f ys"
  by (simp add: List.map_filter_def)

lemma map_of_lower_keys_None:
  "toLowerCase c \<notin> toLowerCase ` set (map fst row) \<Longrightarrow>
   map_of (lower_keys row) (toLowerCase c) = None"
  by (simp add: lower_keys_def map_of_eq_None_iff image_image)

lemma first_hit_None:
  "\<forall>c \<in> set cs. map_of lower (toLowerCase c) = None \<Longrightarrow> first_hit lower cs = None"
  by (induction cs) auto

lemma findKey_None:
  assumes "no_key_among row (map toLowerCase cs)"
  shows "findKey row cs = None"
proof -
  have "map_of (lower_keys row) (toLowerCase c) = None" if "c \<in> set cs" for c
  proof (rule map_of_lower_keys_None)
    show "toLowerCase c \<notin> toLowerCase ` set (map fst row)"
    proof
      assume "toLowerCase c \<in> toLowerCase ` set (map fst row)"
      then obtain k where k: "k \<in> set (map fst row)" "toLowerCase c = toLowerCase k"
        by blast
      from assms k(1) have "toLowerCase k \<notin> set (map toLowerCase cs)"
        unfolding no_key_among_def by blast
      with that k(2) show False
        by (metis image_eqI set_map)
    qed
  qed
  then show ?thesis
    by (simp add: findKey_def first_hit_None)
qed

lemma lat_aliases_lower:
  "map toLowerCase lat_aliases = [ascii ''lat'', ascii ''latitude'', ascii ''y'']"
  by (simp add: lat_aliases_def str_eval)

lemma point_of_row_no_latitude:
  "no_key_among r [ascii ''lat'', ascii ''latitude'', ascii ''y''] \<Longrightarrow>
   point_of_row nt r = None"
  using findKey_None [of r lat_aliases] by (simp add: lat_aliases_lower point_of_row_def)

lemma point_of_row_found:
  assumes "findKey r lat_aliases = Some a" and "findKey r lon_aliases = Some b"
    and "findKey r name_aliases = Some c"
  shows "point_of_row nt r =
     point_of_cells (parseCoord (get_prop r a)) (parseCoord (get_prop r b))
       (trim (String_of nt (get_prop r c)))"
  using assms by (simp add: point_of_row_def)

text \<open>
  Claim C8. A row none of whose keys is, without regard to case, one of lat, Latitude
  and y is dropped: the output is the output for the rows before it followed by the
  output for the rows after it, which is the list of the points of the surviving rows
  in their input order, and the dropped count is one more than without the row.
\<close>

theorem C8_row_without_latitude_dropped:
  assumes "no_key_among r [ascii ''lat'', ascii ''latitude'', ascii ''y'']"
  shows "normalizeRows nt (pre @ r # post) = normalizeRows nt pre @ normalizeRows nt post
    \<and> normalizeRows nt (pre @ r # post) = List.map_filter (point_of_row nt) (pre @ post)
    \<and> dropped_count nt (pre @ r # post) = dropped_count nt pre + 1 + dropped_count nt post
    \<and> dropped_count nt (pre @ r # post) = dropped_count nt (pre @ post) + 1"
  using point_of_row_no_latitude [OF assms, of nt]
  by (simp add: normalizeRows_map_filter dropped_count_filter map_filter_append)

theorem C8_row_without_latitude_dropped_witness:
  "no_key_among
     [(ascii ''Longitude'', Str (ascii ''77.2'')), (ascii ''Analyst'', Str (ascii ''bob''))]
     [ascii ''lat'', ascii ''latitude'', ascii ''y'']
   \<and> normalizeRows (\<lambda>x. [])
        [ [(ascii ''Latitude'', Str (ascii ''1'')), (ascii ''Longitude'', Str (ascii ''2'')),
          (ascii ''Analyst'', Str (ascii ''alice''))],
         [(ascii ''Longitude'', Str (ascii ''77.2'')), (ascii ''Analyst'', Str (ascii ''bob''))],
         [(ascii ''LAT'', Str (ascii ''3'')), (ascii ''x'', Str (ascii ''4'')),
          (ascii ''name'', Str (ascii ''carol''))]] =
       [\<lparr>lat = js_nat 1, lon = js_nat 2, label = ascii ''alice''\<rparr>,
        \<lparr>lat = js_nat 3, lon = js_nat 4, label = ascii ''carol''\<rparr>]
   \<and> dropped_count (\<lambda>x. [])
        [ [(ascii ''Latitude'', Str (ascii ''1'')), (ascii ''Longitude'', Str (ascii ''2'')),
          (ascii ''Analyst'', Str (ascii ''alice''))],
         [(ascii ''Longitude'', Str (ascii ''77.2'')), (ascii ''Analyst'', Str (ascii ''bob''))],
         [(ascii ''LAT'', Str (ascii ''3'')), (ascii ''x'', Str (ascii ''4'')),
          (ascii ''name'', Str (ascii ''carol''))]] = 1"
proof -
  have nk: "no_key_among
     [(ascii ''Longitude'', Str (ascii ''77.2'')), (ascii ''Analyst'', Str (ascii ''bob''))]
     [ascii ''lat'', ascii ''latitude'', ascii ''y'']"
    by (simp add: no_key_among_def str_eval)
  have a: "normalizeRows_state (\<lambda>x. [])
        [ [(ascii ''Latitude'', Str (ascii ''1'')), (ascii ''Longitude'', Str (ascii ''2'')),
          (ascii ''Analyst'', Str (ascii ''alice''))]] =
        ([\<lparr>lat = js_nat 1, lon = js_nat 2, label = ascii ''alice''\<rparr>], 0)"
    by (simp add: rows_eval coord_eval str_eval num_eval)
  have b: "normalizeRows_state (\<lambda>x. [])
        [ [(ascii ''LAT'', Str (ascii ''3'')), (ascii ''x'', Str (ascii ''4'')),
          (ascii ''name'', Str (ascii ''carol''))]] =
        ([\<lparr>lat = js_nat 3, lon = js_nat 4, label = ascii ''carol''\<rparr>], 0)"
    by (simp add: rows_eval coord_eval str_eval num_eval)
  show ?thesis
    using C8_row_without_latitude_dropped [OF nk, of "\<lambda>x. []"
        "[ [(ascii ''Latitude'', Str (ascii ''1'')), (ascii ''Longitude'', Str (ascii ''2'')),
          (ascii ''Analyst'', Str (ascii ''alice''))]]"
        "[ [(ascii ''LAT'', Str (ascii ''3'')), (ascii ''x'', Str (ascii ''4'')),
          (ascii ''name'', Str (ascii ''carol''))]]"] nk a b
    by (simp add: normalizeRows_def dropped_count_def)
qed

lemma trim_null: "trim (ascii ''null'') = ascii ''null''"
  by (simp add: str_eval)

text \<open>
  Claim C9. The label is \<^verbatim>\<open>String(row[nameKey]).trim()\<close>: when the label cell of a row
  holds \<^verbatim>\<open>null\<close> and both coordinates parse, the label is the four letters null, the
  row yields a point with that label and is kept in its place, and it is not counted as
  dropped.
\<close>

theorem C9_null_label_kept:
  assumes "findKey r lat_aliases = Some a" and "findKey r lon_aliases = Some b"
    and "findKey r name_aliases = Some c"
    and "get_prop r c = Null"
    and "parseCoord (get_prop r a) \<noteq> NaN" and "parseCoord (get_prop r b) \<noteq> NaN"
  shows "trim (String_of nt (get_prop r c)) = ascii ''null''
    \<and> point_of_row nt r =
        Some \<lparr>lat = parseCoord (get_prop r a), lon = parseCoord (get_prop r b),
              label = ascii ''null''\<rparr>
    \<and> normalizeRows nt (pre @ r # post) =
        normalizeRows nt pre @
        \<lparr>lat = parseCoord (get_prop r a), lon = parseCoord (get_prop r b),
         label = ascii ''null''\<rparr> # normalizeRows nt post
    \<and> dropped_count nt (pre @ r # post) = dropped_count nt pre + dropped_count nt post"
proof -
  have lbl: "trim (String_of nt (get_prop r c)) = ascii ''null''"
    using assms(4) by (simp add: trim_null)
  have "ascii ''null'' \<noteq> []"
    by (simp add: ascii_def)
  then have p: "point_of_row nt r =
        Some \<lparr>lat = parseCoord (get_prop r a), lon = parseCoord (get_prop r b),
              label = ascii ''null''\<rparr>"
    using assms(5,6) by (simp add: point_of_row_found [OF assms(1-3)] lbl point_of_cells_def)
  show ?thesis
    using lbl p
    by (simp add: normalizeRows_map_filter dropped_count_filter map_filter_append)
qed

theorem C9_null_label_kept_witness:
  "normalizeRows (\<lambda>x. [])
     [ [(ascii ''lat'', Str (ascii ''1'')), (ascii ''lon'', Num (js_nat 2)),
       (ascii ''name'', Null)]] =
     [\<lparr>lat = js_nat 1, lon = js_nat 2, label = ascii ''null''\<rparr>]
   \<and> dropped_count (\<lambda>x. [])
     [ [(ascii ''lat'', Str (ascii ''1'')), (ascii ''lon'', Num (js_nat 2)),
       (ascii ''name'', Null)]] = 0"
proof -
  let ?r = "[(ascii ''lat'', Str (ascii ''1'')), (ascii ''lon'', Num (js_nat 2)),
    (ascii ''name'', Null)]"
  have k: "findKey ?r lat_aliases = Some (ascii ''lat'')"
    "findKey ?r lon_aliases = Some (ascii ''lon'')"
    "findKey ?r name_aliases = Some (ascii ''name'')"
    by (simp_all add: rows_eval str_eval)
  have v: "get_prop ?r (ascii ''name'') = Null"
    "parseCoord (get_prop ?r (ascii ''lat'')) = js_nat 1"
    "parseCoord (get_prop ?r (ascii ''lon'')) = js_nat 2"
    by (simp_all add: rows_eval coord_eval str_eval num_eval)
  have n: "js_nat 1 \<noteq> NaN" "js_nat 2 \<noteq> NaN"
    by (simp_all add: num_eval)
  have e: "normalizeRows (\<lambda>x. []) [] = []" "dropped_count (\<lambda>x. []) [] = 0"
    by (simp_all add: rows_eval)
  show ?thesis
    using C9_null_label_kept [OF k v(1), of "\<lambda>x. []" "[]" "[]"] v n e by simp
qed

section \<open>The invariant of a point\<close>

lemma strip_trailing_head:
  "u = [] \<or> \<not> P (hd u) \<Longrightarrow>
   rev (dropWhile P (rev u)) = [] \<or> \<not> P (hd (rev (dropWhile P (rev u))))"
proof (induction u rule: rev_induct)
  case Nil
  then show ?case by simp
next
  case (snoc x v)
  show ?case
  proof (cases "P x")
    case True
    with snoc.prems have "v \<noteq> []" by auto
    with snoc.prems have "v = [] \<or> \<not> P (hd v)" by simp
    from snoc.IH [OF this] True show ?thesis by simp
  next
    case False
    with snoc.prems show ?thesis by simp
  qed
qed

lemma trim_no_leading_space: "dropWhile is_space (trim s) = trim s"
proof -
  have "dropWhile is_space s = [] \<or> \<not> is_space (hd (dropWhile is_space s))"
    using hd_dropWhile [of is_space s] by blast
  then have "rev (dropWhile is_space (rev (dropWhile is_space s))) = [] \<or>
      \<not> is_space (hd (rev (dropWhile is_space (rev (dropWhile is_space s)))))"
    by (rule strip_trailing_head [where P = is_space and u = "dropWhile is_space s"])
  then show ?thesis
    by (simp add: trim_def dropWhile_eq_self_iff)
qed

lemma trim_idem: "trim (trim s) = trim s"
proof -
  have "trim (trim s) = rev (dropWhile is_space (rev (trim s)))"
    using trim_no_leading_space [of s] by (simp add: trim_def)
  also have "\<dots> = trim s"
    by (simp add: trim_def)
  finally show ?thesis .
qed

lemma point_of_cells_Some:
  "point_of_cells la lo lb = Some p \<Longrightarrow>
   la \<noteq> NaN \<and> lo \<noteq> NaN \<and> lb \<noteq> [] \<and> p = \<lparr>lat = la, lon = lo, label = lb\<rparr>"
  by (auto simp: point_of_cells_def split: if_splits)

lemma point_of_row_checked:
  assumes "point_of_row nt r = Some p"
  shows "point_checked p"
proof -
  from assms obtain a b c where keys:
    "findKey r lat_aliases = Some a" "findKey r lon_aliases = Some b"
    "findKey r name_aliases = Some c"
    by (cases "findKey r lat_aliases"; cases "findKey r lon_aliases";
        cases "findKey r name_aliases") (simp_all add: point_of_row_def)
  from assms have "point_of_cells (parseCoord (get_prop r a)) (parseCoord (get_prop r b))
       (trim (String_of nt (get_prop r c))) = Some p"
    by (simp add: point_of_row_found [OF keys])
  from point_of_cells_Some [OF this] show ?thesis
    by (simp add: point_checked_def trim_idem)
qed

text \<open>A decimal string too large for a double: 1 followed by 309 zeros.\<close>

lemma bit_length_bounds:
  "2 ^ k \<le> n \<Longrightarrow> n < 2 ^ Suc k \<Longrightarrow> bit_length n = Suc k"
proof (induction k arbitrary: n)
  case 0
  then have "n = 1" by simp
  then show ?case by (simp add: bit_length.simps)
next
  case (Suc k)
  from Suc.prems have "2 ^ k \<le> n div 2" and "n div 2 < 2 ^ Suc k" and "n \<noteq> 0"
    by auto
  with Suc.IH [of "n div 2"] show ?case
    by (subst bit_length.simps) simp
qed

lemma bit_length_ten_power: "bit_length (10 ^ 309) = 1027"
  using bit_length_bounds [of 1026 "10 ^ 309"] by simp

lemma bit_length_one: "bit_length 1 = 1"
  by (simp add: bit_length.simps)

lemma round_ratio_overflow: "round_ratio False (10 ^ 309) 1 = Infinity False"
proof -
  have "binary_exponent (10 ^ 309) 1 = 1026"
    by (simp only: binary_exponent_def bit_length_ten_power bit_length_one)
      (simp add: exponent_adjust_def)
  then show ?thesis
    by (simp add: round_ratio_def round_at_def pack_def round_div_def tie_to_even_def)
qed

lemma foldl_digits_zeros:
  "foldl (\<lambda>acc c. acc * 10 + (c - 48)) (a::nat) (replicate n 48) = a * 10 ^ n"
  by (induction n arbitrary: a) simp_all

lemma replace_first_absent: "a \<notin> set s \<Longrightarrow> replace_first a b s = s"
  by (induction s) auto

lemma radix_of_not_zero: "z \<noteq> 48 \<Longrightarrow> radix_of (z # s) = None"
  by (cases s) simp_all

lemma parseCoord_overflow: "parseCoord (Str (49 # replicate 309 48)) = Infinity False"
  by (simp add: coord_eval str_eval list_ex_iff replace_first_absent radix_of_not_zero
      foldl_digits_zeros round_ratio_overflow [simplified])

lemma overflow_row_point:
  "point_of_row (\<lambda>x. [])
     [(ascii ''lat'', Str (49 # replicate 309 48)), (ascii ''lon'', Str (ascii ''0'')),
      (ascii ''name'', Str (ascii ''a''))] =
   Some \<lparr>lat = Infinity False, lon = pos_zero, label = ascii ''a''\<rparr>"
proof -
  let ?r = "[(ascii ''lat'', Str (49 # replicate 309 48)), (ascii ''lon'', Str (ascii ''0'')),
         (ascii ''name'', Str (ascii ''a''))]"
  have k: "findKey ?r lat_aliases = Some (ascii ''lat'')"
    "findKey ?r lon_aliases = Some (ascii ''lon'')"
    "findKey ?r name_aliases = Some (ascii ''name'')"
    by (simp_all add: rows_eval str_eval)
  have g: "get_prop ?r (ascii ''lat'') = Str (49 # replicate 309 48)"
    "get_prop ?r (ascii ''lon'') = Str (ascii ''0'')"
    "get_prop ?r (ascii ''name'') = Str (ascii ''a'')"
    by (simp_all add: get_prop_def ascii_def)
  have z: "parseCoord (Str (ascii ''0'')) = pos_zero"
    by (simp add: coord_eval str_eval num_eval)
  have t: "trim (ascii ''a'') = ascii ''a''" "ascii ''a'' \<noteq> []"
    by (simp_all add: str_eval)
  show ?thesis
    by (simp add: point_of_row_found [OF k] g z t parseCoord_overflow point_of_cells_def
        pos_zero_def del: parseCoord.simps)
qed

text \<open>
  Claim C2, refuted as stated: a row whose latitude cell is the digit 1 followed by 309
  zeros is kept, and the latitude of its point is \<open>+Infinity\<close>, which is not finite.
\<close>

theorem C2_infinite_latitude_counterexample:
  "\<lparr>lat = Infinity False, lon = pos_zero, label = ascii ''a''\<rparr> \<in>
     set (normalizeRows (\<lambda>x. [])
       [ [(ascii ''lat'', Str (49 # replicate 309 48)), (ascii ''lon'', Str (ascii ''0'')),
         (ascii ''name'', Str (ascii ''a''))]])
   \<and> \<not> point_invariant \<lparr>lat = Infinity False, lon = pos_zero, label = ascii ''a''\<rparr>"
  using overflow_row_point
  by (simp add: normalizeRows_map_filter point_invariant_def)

text \<open>
  Claim C2, amended. Every point \<^verbatim>\<open>normalizeRows\<close> produces, for every list of rows,
  has a label that is not empty and is unchanged by trimming, and a latitude and a
  longitude that are not \<open>NaN\<close>.
\<close>

theorem C2_points_checked:
  "\<forall>p \<in> set (normalizeRows nt rs). point_checked p"
proof
  fix p assume "p \<in> set (normalizeRows nt rs)"
  then obtain r where "point_of_row nt r = Some p"
    by (auto simp: normalizeRows_map_filter List.map_filter_def)
  then show "point_checked p" by (rule point_of_row_checked)
qed

theorem C2_points_checked_witness:
  "\<lparr>lat = Infinity False, lon = pos_zero, label = ascii ''a''\<rparr> \<in>
     set (normalizeRows (\<lambda>x. [])
       [ [(ascii ''lat'', Str (49 # replicate 309 48)), (ascii ''lon'', Str (ascii ''0'')),
         (ascii ''name'', Str (ascii ''a''))]])
   \<and> point_checked \<lparr>lat = Infinity False, lon = pos_zero, label = ascii ''a''\<rparr>"
proof -
  have "\<lparr>lat = Infinity False, lon = pos_zero, label = ascii ''a''\<rparr> \<in>
     set (normalizeRows (\<lambda>x. [])
       [ [(ascii ''lat'', Str (49 # replicate 309 48)), (ascii ''lon'', Str (ascii ''0'')),
         (ascii ''name'', Str (ascii ''a''))]])"
    using overflow_row_point by (simp add: normalizeRows_map_filter)
  then show ?thesis
    using C2_points_checked [of "\<lambda>x. []"
      "[ [(ascii ''lat'', Str (49 # replicate 309 48)), (ascii ''lon'', Str (ascii ''0'')),
         (ascii ''name'', Str (ascii ''a''))]]"]
    by blast
qed


section \<open>parseCoord\<close>

text \<open>Trimming and replacing a comma leave the first hemisphere letter where it is.\<close>

lemma find_dropWhile_other:
  "(\<And>c. Q c \<Longrightarrow> \<not> P c) \<Longrightarrow> find P (dropWhile Q s) = find P s"
  by (induction s) auto

lemma find_snoc_other: "\<not> P x \<Longrightarrow> find P (v @ [x]) = find P v"
  by (induction v) auto

lemma find_strip_trailing:
  assumes "\<And>c. Q c \<Longrightarrow> \<not> P c"
  shows "find P (rev (dropWhile Q (rev s))) = find P s"
proof (induction s rule: rev_induct)
  case Nil
  then show ?case by simp
next
  case (snoc x v)
  then show ?case
    using assms [of x] by (simp add: find_snoc_other)
qed

lemma find_replace_first:
  "\<not> P a \<Longrightarrow> \<not> P b \<Longrightarrow> find P (replace_first a b s) = find P s"
  by (induction s) auto

lemma space_not_hemisphere: "is_space c \<Longrightarrow> \<not> is_hemisphere c"
  by (auto simp: is_space_def is_hemisphere_def ascii_def)

lemma find_hemisphere_prepared: "find is_hemisphere (prepared s) = find is_hemisphere s"
proof -
  have "\<not> is_hemisphere 44" "\<not> is_hemisphere 46"
    by (simp_all add: is_hemisphere_def ascii_def)
  then show ?thesis
    by (simp add: prepared_def trim_def find_replace_first find_strip_trailing
        find_dropWhile_other space_not_hemisphere)
qed

lemma hasHemisphere_find: "hasHemisphere s \<longleftrightarrow> find is_hemisphere s \<noteq> None"
  by (auto simp: hasHemisphere_def list_ex_iff find_None_iff)

lemma parseCoord_on_dms_path:
  "takes_dms_path s \<Longrightarrow>
   parseCoord (Str s) = dms_of_parts (dms_hemi (prepared s)) (dms_tokens s)"
  by (auto simp: takes_dms_path_def parseCoord_string_def parseCoord_trimmed_def
      parseCoord_decimal_or_dms_def parseCoord_dms_def dms_tokens_def prepared_def)

lemma parseCoord_empty: "trim s = [] \<Longrightarrow> parseCoord (Str s) = NaN"
  by (simp add: parseCoord_string_def parseCoord_trimmed_def)

lemma hemisphere_takes_dms_path:
  assumes "find is_hemisphere s = Some h" and "parseCoord (Str s) \<noteq> NaN"
  shows "takes_dms_path s"
proof -
  from assms(2) have "trim s \<noteq> []"
    using parseCoord_empty by blast
  moreover have "hasHemisphere (prepared s)"
    using assms(1) by (simp add: hasHemisphere_find find_hemisphere_prepared)
  ultimately show ?thesis
    by (simp add: takes_dms_path_def)
qed

lemma upper_hemisphere:
  "is_hemisphere h \<Longrightarrow>
   upper_letter h = 78 \<or> upper_letter h = 83 \<or> upper_letter h = 69 \<or> upper_letter h = 87"
  by (auto simp: is_hemisphere_def ascii_def upper_letter_def)

lemma sign_bit_neg_abs: "x \<noteq> NaN \<Longrightarrow> sign_bit (js_neg (js_abs x))"
  by (cases x) simp_all

lemma sign_bit_abs: "\<not> sign_bit (js_abs x)"
  by (cases x) simp_all

lemma neg_abs_NaN: "js_neg (js_abs x) = NaN \<longleftrightarrow> x = NaN"
  by (cases x) simp_all

lemma num_value_sign: "sign_bit x \<Longrightarrow> num_value x \<le> 0" "\<not> sign_bit x \<Longrightarrow> 0 \<le> num_value x"
  by (cases x; simp)+

lemma dms_of_parts_south_west:
  assumes "u = 83 \<or> u = 87" and "dms_of_parts (Some u) parts \<noteq> NaN"
  shows "sign_bit (dms_of_parts (Some u) parts)"
  using assms
  by (auto simp: dms_of_parts_def dms_result_def hemisphere_applied_def neg_abs_NaN
      sign_bit_neg_abs split: if_splits)

lemma dms_of_parts_north_east:
  assumes "u = 78 \<or> u = 69"
  shows "\<not> sign_bit (dms_of_parts (Some u) parts)"
  using assms
  by (auto simp: dms_of_parts_def dms_result_def hemisphere_applied_def sign_bit_abs
      split: if_splits)

lemma hemisphere_forces_sign:
  assumes h: "find is_hemisphere s = Some h" and v: "parseCoord (Str s) \<noteq> NaN"
  shows "(upper_letter h = 83 \<or> upper_letter h = 87 \<or> upper_letter h = 78 \<or> upper_letter h = 69)
      \<and> (upper_letter h = 83 \<or> upper_letter h = 87 \<longrightarrow>
           sign_bit (parseCoord (Str s)) \<and> num_value (parseCoord (Str s)) \<le> 0)
      \<and> (upper_letter h = 78 \<or> upper_letter h = 69 \<longrightarrow>
           \<not> sign_bit (parseCoord (Str s)) \<and> 0 \<le> num_value (parseCoord (Str s)))"
proof -
  have "is_hemisphere h"
    using h by (auto simp: find_Some_iff)
  then have u: "upper_letter h = 78 \<or> upper_letter h = 83 \<or> upper_letter h = 69 \<or> upper_letter h = 87"
    by (rule upper_hemisphere)
  have "dms_hemi (prepared s) = Some (upper_letter h)"
    using h by (simp add: dms_hemi_def find_hemisphere_prepared)
  then have eq: "parseCoord (Str s) = dms_of_parts (Some (upper_letter h)) (dms_tokens s)"
    using parseCoord_on_dms_path [OF hemisphere_takes_dms_path [OF h v]] by simp
  show ?thesis
    using u v dms_of_parts_south_west [of "upper_letter h" "dms_tokens s"]
      dms_of_parts_north_east [of "upper_letter h" "dms_tokens s"]
      num_value_sign [of "parseCoord (Str s)"]
    unfolding eq by blast
qed

lemma parseCoord_minus_5_30_0_N:
  "parseCoord (Str (ascii ''-5 30 0 N'')) = Finite False 6192449487634432 (- 50)"
  by (simp add: coord_eval str_eval num_eval)

lemma parseCoord_77_12_30_W:
  "parseCoord (Str (ascii ''77 12 30 W'')) = Finite True 5433053456717142 (- 46)"
  by (simp add: coord_eval str_eval num_eval)

lemma value_five_and_a_half: "num_value (Finite False 6192449487634432 (- 50)) = 11 / 2"
  by simp

lemma approx_77_12_30_W:
  "approx (Finite True 5433053456717142 (- 46)) (- (77 + 12 / 60 + 30 / 3600)) (1 / 10 ^ 12)"
  by (simp add: approx_def)

text \<open>
  Claim C6. When the string holds a hemisphere letter and the result is a number, the
  first such letter, in upper case, is one of S, W, N and E and decides the sign
  whatever the sign of the degrees: with S or W the sign bit of the result is set and
  its value is at most 0, with N or E the sign bit is clear and its value is at least
  0. In particular \<^verbatim>\<open>-5 30 0 N\<close> gives the double 5.5 and \<^verbatim>\<open>77 12 30 W\<close> gives a double
  within \<open>10^-12\<close> of \<open>-(77 + 12/60 + 30/3600)\<close>.
\<close>

theorem C6_hemisphere_overrides_sign:
  "(find is_hemisphere s = Some h \<and> parseCoord (Str s) \<noteq> NaN \<longrightarrow>
      (upper_letter h = 83 \<or> upper_letter h = 87 \<or> upper_letter h = 78 \<or> upper_letter h = 69)
      \<and> (upper_letter h = 83 \<or> upper_letter h = 87 \<longrightarrow>
           sign_bit (parseCoord (Str s)) \<and> num_value (parseCoord (Str s)) \<le> 0)
      \<and> (upper_letter h = 78 \<or> upper_letter h = 69 \<longrightarrow>
           \<not> sign_bit (parseCoord (Str s)) \<and> 0 \<le> num_value (parseCoord (Str s))))
   \<and> parseCoord (Str (ascii ''-5 30 0 N'')) = Finite False 6192449487634432 (- 50)
   \<and> num_value (Finite False 6192449487634432 (- 50)) = 11 / 2
   \<and> parseCoord (Str (ascii ''77 12 30 W'')) = Finite True 5433053456717142 (- 46)
   \<and> approx (Finite True 5433053456717142 (- 46)) (- (77 + 12 / 60 + 30 / 3600)) (1 / 10 ^ 12)"
proof (intro conjI)
  show "find is_hemisphere s = Some h \<and> parseCoord (Str s) \<noteq> NaN \<longrightarrow>
      (upper_letter h = 83 \<or> upper_letter h = 87 \<or> upper_letter h = 78 \<or> upper_letter h = 69)
      \<and> (upper_letter h = 83 \<or> upper_letter h = 87 \<longrightarrow>
           sign_bit (parseCoord (Str s)) \<and> num_value (parseCoord (Str s)) \<le> 0)
      \<and> (upper_letter h = 78 \<or> upper_letter h = 69 \<longrightarrow>
           \<not> sign_bit (parseCoord (Str s)) \<and> 0 \<le> num_value (parseCoord (Str s)))"
    using hemisphere_forces_sign [of s h] by blast
qed (rule parseCoord_minus_5_30_0_N value_five_and_a_half parseCoord_77_12_30_W
    approx_77_12_30_W)+

theorem C6_hemisphere_overrides_sign_witness:
  "find is_hemisphere (ascii ''77 12 30 W'') = Some 87
   \<and> parseCoord (Str (ascii ''77 12 30 W'')) \<noteq> NaN
   \<and> upper_letter 87 = 87
   \<and> sign_bit (parseCoord (Str (ascii ''77 12 30 W'')))
   \<and> num_value (parseCoord (Str (ascii ''77 12 30 W''))) \<le> 0
   \<and> find is_hemisphere (ascii ''-5 30 0 n'') = Some 110
   \<and> parseCoord (Str (ascii ''-5 30 0 n'')) \<noteq> NaN
   \<and> upper_letter 110 = 78
   \<and> \<not> sign_bit (parseCoord (Str (ascii ''-5 30 0 n'')))
   \<and> 0 \<le> num_value (parseCoord (Str (ascii ''-5 30 0 n'')))"
proof -
  have w: "find is_hemisphere (ascii ''77 12 30 W'') = Some 87" "upper_letter 87 = 87"
    by (simp_all add: is_hemisphere_def ascii_def upper_letter_def)
  have w': "parseCoord (Str (ascii ''77 12 30 W'')) \<noteq> NaN"
    by (simp only: parseCoord_77_12_30_W) simp
  have "parseCoord (Str (ascii ''-5 30 0 n'')) = Finite False 6192449487634432 (- 50)"
    by (simp add: coord_eval str_eval num_eval)
  then have n': "parseCoord (Str (ascii ''-5 30 0 n'')) \<noteq> NaN"
    by (simp del: parseCoord.simps)
  have n: "find is_hemisphere (ascii ''-5 30 0 n'') = Some 110" "upper_letter 110 = 78"
    by (simp_all add: is_hemisphere_def ascii_def upper_letter_def)
  show ?thesis
    using C6_hemisphere_overrides_sign [of "ascii ''77 12 30 W''" 87]
      C6_hemisphere_overrides_sign [of "ascii ''-5 30 0 n''" 110] w w' n n'
    by blast
qed

section \<open>Tokens of the DMS path\<close>

lemma dms_parts_nonempty: "p \<in> set (dms_parts s) \<Longrightarrow> p \<noteq> []"
  by (simp add: dms_parts_def)

lemma part_or_zero_nth:
  "i < length (dms_parts s) \<Longrightarrow> part_or_zero (dms_parts s) i = dms_parts s ! i"
  using dms_parts_nonempty [of "dms_parts s ! i" s] by (simp add: part_or_zero_def)

lemma dms_of_parts_invalid_token:
  assumes "i < 3" and "i < length (dms_parts s)" and "parseFloat (dms_parts s ! i) = NaN"
  shows "dms_of_parts hemi (dms_parts s) = NaN"
proof -
  from assms(1) consider "i = 0" | "i = 1" | "i = 2" by linarith
  then show ?thesis
  proof cases
    case 1
    with assms show ?thesis by (simp add: dms_of_parts_def dms_result_def)
  next
    case 2
    with assms part_or_zero_nth [of 1 s] show ?thesis
      by (simp add: dms_of_parts_def dms_result_def)
  next
    case 3
    with assms part_or_zero_nth [of 2 s] show ?thesis
      by (simp add: dms_of_parts_def dms_result_def)
  qed
qed

lemma eval_10_20_30_abc_N:
  "takes_dms_path (ascii ''10 20 30 abc N'')"
  "dms_tokens (ascii ''10 20 30 abc N'') = [ascii ''10'', ascii ''20'', ascii ''30'', ascii ''abc'']"
  "parseFloat (ascii ''abc'') = NaN"
  "Number_of_string (ascii ''abc'') = NaN"
  by (simp_all add: takes_dms_path_def dms_tokens_def prepared_def coord_eval str_eval)

lemma parseCoord_10_20_30_abc_N:
  "parseCoord (Str (ascii ''10 20 30 abc N'')) = Finite False 5821840768298735 (- 49)"
  by (simp add: coord_eval str_eval num_eval)

text \<open>
  Claim C7, refuted as stated: \<^verbatim>\<open>10 20 30 abc N\<close> takes the DMS path and its fourth token
  \<^verbatim>\<open>abc\<close> is no number for \<^verbatim>\<open>parseFloat\<close> nor for \<^verbatim>\<open>Number\<close>, yet the value is the
  number \<open>10 + 20/60 + 30/3600\<close>.
\<close>

theorem C7_fourth_token_ignored_counterexample:
  "takes_dms_path (ascii ''10 20 30 abc N'')
   \<and> ascii ''abc'' \<in> set (dms_tokens (ascii ''10 20 30 abc N''))
   \<and> parseFloat (ascii ''abc'') = NaN
   \<and> Number_of_string (ascii ''abc'') = NaN
   \<and> parseCoord (Str (ascii ''10 20 30 abc N'')) = Finite False 5821840768298735 (- 49)
   \<and> parseCoord (Str (ascii ''10 20 30 abc N'')) \<noteq> NaN"
  by (simp add: eval_10_20_30_abc_N parseCoord_10_20_30_abc_N del: parseCoord.simps)

text \<open>
  Claim C7, amended. On the DMS path, when \<^verbatim>\<open>parseFloat\<close> gives \<open>NaN\<close> for one of the
  first three parts of the cleaned string, the whole value is \<open>NaN\<close>. (Parts after the
  third are not looked at.)
\<close>

theorem C7_invalid_among_first_three:
  assumes "takes_dms_path s" and "\<exists>t \<in> set (take 3 (dms_tokens s)). parseFloat t = NaN"
  shows "parseCoord (Str s) = NaN"
proof -
  from assms(2) obtain t where t: "t \<in> set (take 3 (dms_tokens s))" "parseFloat t = NaN"
    by blast
  then obtain i where i: "i < length (take 3 (dms_tokens s))" "take 3 (dms_tokens s) ! i = t"
    by (auto simp: in_set_conv_nth)
  then have "i < 3" "i < length (dms_parts (prepared s))"
    "parseFloat (dms_parts (prepared s) ! i) = NaN"
    using t(2) by (simp_all add: dms_tokens_def)
  then have "dms_of_parts (dms_hemi (prepared s)) (dms_parts (prepared s)) = NaN"
    by (rule dms_of_parts_invalid_token)
  then show ?thesis
    using parseCoord_on_dms_path [OF assms(1)] by (simp add: dms_tokens_def)
qed

lemma eval_12_x_5_N:
  "takes_dms_path (ascii ''12 x 5 N'')"
  "dms_tokens (ascii ''12 x 5 N'') = [ascii ''12'', ascii ''x'', ascii ''5'']"
  "parseFloat (ascii ''x'') = NaN"
  by (simp_all add: takes_dms_path_def dms_tokens_def prepared_def coord_eval str_eval)

theorem C7_invalid_among_first_three_witness:
  "takes_dms_path (ascii ''12 x 5 N'')
   \<and> ascii ''x'' \<in> set (take 3 (dms_tokens (ascii ''12 x 5 N'')))
   \<and> parseFloat (ascii ''x'') = NaN
   \<and> parseCoord (Str (ascii ''12 x 5 N'')) = NaN"
proof -
  have "ascii ''x'' \<in> set (take 3 (dms_tokens (ascii ''12 x 5 N'')))"
    by (simp add: eval_12_x_5_N)
  then show ?thesis
    using C7_invalid_among_first_three [of "ascii ''12 x 5 N''"] eval_12_x_5_N(1,3) by blast
qed

section \<open>The examples of the specification\<close>

lemma eval_degree_sign:
  "parseCoord (Str (ascii ''28'' @ [degree_sign] @ ascii ''36'' @ [39] @ ascii ''50'' @ [34] @ ascii ''N''))
     = Finite False 8115861828490581 (- 48)"
  "dms_tokens (ascii ''28'' @ [degree_sign] @ ascii ''36'' @ [39] @ ascii ''50'' @ [34] @ ascii ''N'')
     = [ascii ''28'' @ [degree_sign] @ ascii ''36'', ascii ''50'']"
  "parseFloat (ascii ''28'' @ [degree_sign] @ ascii ''36'') = js_nat 28"
  by (simp_all add: dms_tokens_def prepared_def coord_eval str_eval num_eval)

lemma eval_source_degree_char:
  "parseCoord (Str (ascii ''28'' @ [source_degree_char] @ ascii ''36'' @ [39] @ ascii ''50'' @ [34] @ ascii ''N''))
     = Finite False 8054093708601299 (- 48)"
  by (simp_all add: coord_eval str_eval num_eval)

lemma approx_degree_sign:
  "approx (Finite False 8115861828490581 (- 48)) (28 + 50 / 60) (1 / 10 ^ 12)"
  "\<not> approx (Finite False 8115861828490581 (- 48)) (28 + 36 / 60 + 50 / 3600) (1 / 10)"
  "approx (Finite False 8054093708601299 (- 48)) (28 + 36 / 60 + 50 / 3600) (1 / 10 ^ 12)"
  by (simp_all add: approx_def)

text \<open>
  Claim C1, evaluated. On \<^verbatim>\<open>28\<close>, degree sign U+00B0, \<^verbatim>\<open>36'50"N\<close> the program returns the
  double nearest to \<open>28 + 50/60\<close>, which is not within 0.1 of \<open>28 + 36/60 + 50/3600\<close>:
  the degree sign is not among the characters the program replaces, so the parts are
  \<^verbatim>\<open>28\<close>, degree sign, \<^verbatim>\<open>36\<close> as one part, read as 28 by \<^verbatim>\<open>parseFloat\<close>, and \<^verbatim>\<open>50\<close>
  as the minutes. With the character the source file has in the place of the degree
  sign, U+C9F8, the result is within \<open>10^-12\<close> of \<open>28 + 36/60 + 50/3600\<close>.
\<close>

theorem C1_degree_sign_not_stripped:
  "parseCoord (Str (ascii ''28'' @ [degree_sign] @ ascii ''36'' @ [39] @ ascii ''50'' @ [34] @ ascii ''N''))
     = Finite False 8115861828490581 (- 48)
   \<and> approx (Finite False 8115861828490581 (- 48)) (28 + 50 / 60) (1 / 10 ^ 12)
   \<and> \<not> approx (Finite False 8115861828490581 (- 48)) (28 + 36 / 60 + 50 / 3600) (1 / 10)
   \<and> dms_tokens (ascii ''28'' @ [degree_sign] @ ascii ''36'' @ [39] @ ascii ''50'' @ [34] @ ascii ''N'')
     = [ascii ''28'' @ [degree_sign] @ ascii ''36'', ascii ''50'']
   \<and> parseCoord (Str (ascii ''28'' @ [source_degree_char] @ ascii ''36'' @ [39] @ ascii ''50'' @ [34] @ ascii ''N''))
     = Finite False 8054093708601299 (- 48)
   \<and> approx (Finite False 8054093708601299 (- 48)) (28 + 36 / 60 + 50 / 3600) (1 / 10 ^ 12)"
  by (intro conjI) (rule eval_degree_sign eval_source_degree_char approx_degree_sign)+

lemma eval_minus_5_30_0:
  "\<not> hasDmsSymbols (prepared (ascii ''-5 30 0''))"
  "\<not> hasHemisphere (prepared (ascii ''-5 30 0''))"
  "\<not> takes_dms_path (ascii ''-5 30 0'')"
  "Number_of_string (prepared (ascii ''-5 30 0'')) = NaN"
  "parseCoord (Str (ascii ''-5 30 0'')) = NaN"
  by (simp_all add: takes_dms_path_def prepared_def coord_eval str_eval)

text \<open>
  Claim C3, refuted as stated: \<^verbatim>\<open>-5 30 0\<close> has no hemisphere letter and none of the three
  symbols, so the whole string goes to \<^verbatim>\<open>Number\<close>, and the result is \<open>NaN\<close>, not a
  number near \<open>-5.5\<close>.
\<close>

theorem C3_plain_path_counterexample:
  "parseCoord (Str (ascii ''-5 30 0'')) = NaN
   \<and> \<not> approx (parseCoord (Str (ascii ''-5 30 0''))) (- 11 / 2) (1 / 10)"
  by (simp add: eval_minus_5_30_0 approx_def del: parseCoord.simps)

text \<open>
  Claim C3, amended. In \<^verbatim>\<open>-5 30 0\<close>, after trimming, there is none of the three symbols
  and no hemisphere letter, so the string does not take the DMS path: the whole string
  is given to \<^verbatim>\<open>Number\<close>, which gives \<open>NaN\<close>, and the value is invalid.
\<close>

theorem C3_spaces_need_dms_path:
  "\<not> hasDmsSymbols (prepared (ascii ''-5 30 0''))
   \<and> \<not> hasHemisphere (prepared (ascii ''-5 30 0''))
   \<and> \<not> takes_dms_path (ascii ''-5 30 0'')
   \<and> Number_of_string (prepared (ascii ''-5 30 0'')) = NaN
   \<and> parseCoord (Str (ascii ''-5 30 0'')) = NaN"
  by (intro conjI) (rule eval_minus_5_30_0)+

end
